(* ===== verification/Prelude.thy ===== *)
theory Prelude
  imports Complex_Main
begin

text \<open>
  Shared vocabulary of the development: the values a numpy float array holds
  (reals extended by the two infinities the code writes), the Python
  exceptions the code can raise, the elementwise numpy operations the code
  uses on one-dimensional arrays (modelled as lists), the column read
  \<open>samples[:, j]\<close> of a two-dimensional array, and the unit conversion
  \<open>np.radians\<close>. Their length and index lemmas are collected in
  \<open>np_simps\<close>, so that the component proofs unfold an array expression
  one entry at a time.
\<close>

named_theorems np_simps "length and index equations of the numpy array model"

section \<open>Float values with infinities\<close>

text \<open>
  A log-probability is a float that may be \<open>-np.inf\<close> (the parallax prior)
  and, after \<open>lnprob *= -1\<close>, \<open>+inf\<close>. Finite values are modelled as reals:
  rounding is not modelled.
\<close>

datatype fval = Fin real | NegInf | PosInf

instantiation fval :: uminus
begin

fun uminus_fval :: "fval \<Rightarrow> fval" where
  "uminus_fval (Fin x) = Fin (- x)"
| "uminus_fval NegInf = PosInf"
| "uminus_fval PosInf = NegInf"

instance ..

end

instantiation fval :: linorder
begin

fun less_eq_fval :: "fval \<Rightarrow> fval \<Rightarrow> bool" where
  "less_eq_fval NegInf _ = True"
| "less_eq_fval _ PosInf = True"
| "less_eq_fval (Fin x) (Fin y) = (x \<le> y)"
| "less_eq_fval _ _ = False"

definition less_fval :: "fval \<Rightarrow> fval \<Rightarrow> bool" where
  "less_fval v w = (v \<le> w \<and> \<not> w \<le> v)"

instance
proof
  fix x y z :: fval
  show "(x < y) = (x \<le> y \<and> \<not> y \<le> x)" by (simp add: less_fval_def)
  show "x \<le> x" by (cases x) simp_all
  show "x \<le> y \<Longrightarrow> y \<le> z \<Longrightarrow> x \<le> z" by (cases x; cases y; cases z) simp_all
  show "x \<le> y \<Longrightarrow> y \<le> x \<Longrightarrow> x = y" by (cases x; cases y) simp_all
  show "x \<le> y \<or> y \<le> x" by (cases x; cases y) auto
qed

end

section \<open>Python exceptions\<close>

text \<open>
  \<open>IndexError\<close> (indexing past an end), \<open>ValueError\<close> (ragged rows),
  \<open>AxisError\<close> (a missing axis), \<open>TypeError\<close> (\<open>len\<close> of a
  zero-dimensional array), \<open>AttributeError\<close> (a method called on \<open>None\<close>),
  \<open>FileNotFoundError\<close> (opening a missing file).
\<close>

datatype py_error = IndexError | ValueError | AxisError | TypeError | AttributeError
  | FileNotFoundError

section \<open>numpy arrays of zero, one and two dimensions\<close>

text \<open>
  The arrays \<open>np.loadtxt\<close> returns: a 0-d array (a scalar), a 1-d array,
  or a 2-d array stored by rows. \<open>np.transpose\<close> reverses the axes, which
  leaves 0-d and 1-d arrays unchanged; \<open>a[k]\<close> selects along the first
  axis, raising \<open>IndexError\<close> past its end and on a 0-d array.
  \<open>np_values\<close> lists the entries of a 0-d or 1-d array.
\<close>

datatype ndarray = Arr0 real | Arr1 "real list" | Arr2 "real list list"

fun np_ndim :: "ndarray \<Rightarrow> nat" where
  "np_ndim (Arr0 _) = 0"
| "np_ndim (Arr1 _) = 1"
| "np_ndim (Arr2 _) = 2"

fun np_transpose :: "ndarray \<Rightarrow> ndarray" where
  "np_transpose (Arr2 rows) = Arr2 (transpose rows)"
| "np_transpose a = a"

fun np_getitem :: "ndarray \<Rightarrow> nat \<Rightarrow> py_error + ndarray" where
  "np_getitem (Arr0 _) k = Inl IndexError"
| "np_getitem (Arr1 xs) k = (if k < length xs then Inr (Arr0 (xs ! k)) else Inl IndexError)"
| "np_getitem (Arr2 rows) k = (if k < length rows then Inr (Arr1 (rows ! k)) else Inl IndexError)"

fun np_values :: "ndarray \<Rightarrow> real list" where
  "np_values (Arr0 x) = [x]"
| "np_values (Arr1 xs) = xs"
| "np_values (Arr2 rows) = concat rows"

section \<open>numpy arrays as lists\<close>

text \<open>
  Binary operations on two arrays act entry by entry (numpy raises on
  arrays of different shapes; every use below is on arrays of one length);
  an operation of a scalar and an array broadcasts the scalar.
\<close>

definition vadd :: "real list \<Rightarrow> real list \<Rightarrow> real list" where
  "vadd xs ys = map2 (+) xs ys"

definition vsub :: "real list \<Rightarrow> real list \<Rightarrow> real list" where
  "vsub xs ys = map2 (-) xs ys"

definition vmul :: "real list \<Rightarrow> real list \<Rightarrow> real list" where
  "vmul xs ys = map2 (*) xs ys"

definition vdiv :: "real list \<Rightarrow> real list \<Rightarrow> real list" where
  "vdiv xs ys = map2 (/) xs ys"

definition vneg :: "real list \<Rightarrow> real list" where
  "vneg xs = map uminus xs"

definition vabs :: "real list \<Rightarrow> real list" where
  "vabs xs = map abs xs"

definition sadd :: "real \<Rightarrow> real list \<Rightarrow> real list" where
  "sadd c xs = map (\<lambda>x. c + x) xs"

definition ssub :: "real \<Rightarrow> real list \<Rightarrow> real list" where
  "ssub c xs = map (\<lambda>x. c - x) xs"

definition subs :: "real list \<Rightarrow> real \<Rightarrow> real list" where
  "subs xs c = map (\<lambda>x. x - c) xs"

definition smul :: "real \<Rightarrow> real list \<Rightarrow> real list" where
  "smul c xs = map (\<lambda>x. c * x) xs"

text \<open>\<open>a[:, j]\<close>: column \<open>j\<close> of a two-dimensional array stored by rows.\<close>

definition column :: "'a list list \<Rightarrow> nat \<Rightarrow> 'a list" where
  "column rows j = map (\<lambda>r. r ! j) rows"

text \<open>A list of rows is an array of \<open>M\<close> columns when every row has length \<open>M\<close>.\<close>

definition is_matrix :: "'a list list \<Rightarrow> nat \<Rightarrow> bool" where
  "is_matrix rows m = list_all (\<lambda>r. length r = m) rows"

text \<open>\<open>np.concatenate((a, b), axis=1)\<close>: the columns of \<open>a\<close>, then those of \<open>b\<close>.\<close>

definition hcat :: "'a list list \<Rightarrow> 'a list list \<Rightarrow> 'a list list" where
  "hcat a b = map2 (@) a b"

text \<open>
  \<open>np.sum(rows, axis=1)\<close> on a Python list of equal-length arrays: the row
  sums; an empty list becomes a one-dimensional array, which has no axis 1,
  and numpy raises \<open>AxisError\<close>.
\<close>

definition np_sum_axis1 :: "real list list \<Rightarrow> py_error + real list" where
  "np_sum_axis1 rows = (if rows = [] then Inl AxisError else Inr (map sum_list rows))"

text \<open>
  \<open>a[:, idx]\<close>: the columns \<open>idx\<close> of a two-dimensional array, in the
  order of \<open>idx\<close>, repeats allowed (numpy's fancy indexing).
\<close>

definition select_columns :: "'a list list \<Rightarrow> nat list \<Rightarrow> 'a list list" where
  "select_columns rows idx = map (\<lambda>r. map (\<lambda>i. r ! i) idx) rows"

text \<open>\<open>np.radians\<close>.\<close>

definition radians :: "real \<Rightarrow> real" where
  "radians d = d * pi / 180"

lemma fval_minus_minus [simp]: "- (- (v::fval)) = v"
  by (cases v) simp_all

lemma length_np [simp, np_simps]:
  "length (vadd xs ys) = min (length xs) (length ys)"
  "length (vsub xs ys) = min (length xs) (length ys)"
  "length (vmul xs ys) = min (length xs) (length ys)"
  "length (vdiv xs ys) = min (length xs) (length ys)"
  "length (vneg xs) = length xs"
  "length (vabs xs) = length xs"
  "length (sadd c xs) = length xs"
  "length (ssub c xs) = length xs"
  "length (subs xs c) = length xs"
  "length (smul c xs) = length xs"
  "length (column rows j) = length rows"
  by (simp_all add: vadd_def vsub_def vmul_def vdiv_def vneg_def vabs_def sadd_def ssub_def subs_def smul_def
      column_def)

lemma nth_np [simp, np_simps]:
  "j < length xs \<Longrightarrow> j < length ys \<Longrightarrow> vadd xs ys ! j = xs ! j + ys ! j"
  "j < length xs \<Longrightarrow> j < length ys \<Longrightarrow> vsub xs ys ! j = xs ! j - ys ! j"
  "j < length xs \<Longrightarrow> j < length ys \<Longrightarrow> vmul xs ys ! j = xs ! j * ys ! j"
  "j < length xs \<Longrightarrow> j < length ys \<Longrightarrow> vdiv xs ys ! j = xs ! j / ys ! j"
  "j < length xs \<Longrightarrow> vneg xs ! j = - (xs ! j)"
  "j < length xs \<Longrightarrow> vabs xs ! j = \<bar>xs ! j\<bar>"
  "j < length xs \<Longrightarrow> sadd c xs ! j = c + xs ! j"
  "j < length xs \<Longrightarrow> ssub c xs ! j = c - xs ! j"
  "j < length xs \<Longrightarrow> subs xs c ! j = xs ! j - c"
  "j < length xs \<Longrightarrow> smul c xs ! j = c * xs ! j"
  "i < length rows \<Longrightarrow> column rows j ! i = rows ! i ! j"
  by (simp_all add: vadd_def vsub_def vmul_def vdiv_def vneg_def vabs_def sadd_def ssub_def subs_def smul_def
      column_def)

lemma is_matrix_nth [np_simps]:
  "is_matrix rows m \<Longrightarrow> i < length rows \<Longrightarrow> length (rows ! i) = m"
  by (simp add: is_matrix_def list_all_length)

lemma column_map_upt [simp, np_simps]:
  "column (map f [0..<n]) j = map (\<lambda>i. f i ! j) [0..<n]"
  by (simp add: column_def)

text \<open>
  A sequence of index assignments \<open>a[j] = g(j)\<close> for \<open>j\<close> in a list of
  indices: the loops that fill an array row by row and the fancy-index
  assignment \<open>a[idx] = v\<close> are both of this form.
\<close>

lemma length_foldl_update [simp, np_simps]:
  "length (foldl (\<lambda>l j. l[j := g j]) l js) = length l"
  by (induction js arbitrary: l) simp_all

lemma nth_foldl_update [np_simps]:
  "k < length l \<Longrightarrow>
     foldl (\<lambda>l j. l[j := g j]) l js ! k = (if k \<in> set js then g k else l ! k)"
proof (induction js arbitrary: l)
  case Nil
  then show ?case by simp
next
  case (Cons j js)
  then show ?case by (auto simp: nth_list_update)
qed

lemma vdiv_map_upt [np_simps]:
  "length ys = n \<Longrightarrow> vdiv (map g [0..<n]) ys = map (\<lambda>i. g i / ys ! i) [0..<n]"
  by (rule nth_equalityI) simp_all

lemma length_transpose_matrix:
  "is_matrix rows m \<Longrightarrow> rows \<noteq> [] \<Longrightarrow> length (transpose rows) = m"
proof (induction rows)
  case Nil
  then show ?case by simp
next
  case (Cons r rows)
  then show ?case by (cases rows) (simp_all add: is_matrix_def length_transpose)
qed

lemma transpose_matrix [np_simps]:
  assumes "is_matrix rows m" "rows \<noteq> []"
  shows "transpose rows = map (column rows) [0..<m]"
proof (rule nth_equalityI)
  show "length (transpose rows) = length (map (column rows) [0..<m])"
    using length_transpose_matrix [OF assms] by simp
next
  fix j assume "j < length (transpose rows)"
  then have j: "j < m" using length_transpose_matrix [OF assms] by simp
  have "filter (\<lambda>ys. j < length ys) rows = rows"
    using assms(1) j by (auto simp: is_matrix_def list_all_iff)
  then show "transpose rows ! j = map (column rows) [0..<m] ! j"
    using j length_transpose_matrix [OF assms] by (simp add: nth_transpose column_def)
qed

lemma column_single [simp]: "column [r] j = [r ! j]"
  by (simp add: column_def)

lemma hcat_shape:
  assumes "is_matrix a ma" "is_matrix b mb" "length a = length b"
  shows "is_matrix (hcat a b) (ma + mb)" "length (hcat a b) = length a"
  using assms by (auto simp: hcat_def is_matrix_def list_all_length)

lemma select_columns_shape:
  "is_matrix (select_columns rows idx) (length idx)" "length (select_columns rows idx) = length rows"
  by (simp_all add: select_columns_def is_matrix_def list_all_iff)

text \<open>Cauchy--Schwarz in two dimensions, and the square-root bound it gives.\<close>

lemma cauchy_schwarz2:
  fixes x y s c :: real
  shows "(x * s - y * c)\<^sup>2 \<le> (x\<^sup>2 + y\<^sup>2) * (s\<^sup>2 + c\<^sup>2)"
proof -
  have "(x * s - y * c)\<^sup>2 + (x * c + y * s)\<^sup>2 = (x\<^sup>2 + y\<^sup>2) * (s\<^sup>2 + c\<^sup>2)" by algebra
  then show ?thesis by (metis le_add_same_cancel1 zero_le_power2)
qed

lemma abs_le_sqrt: "t\<^sup>2 \<le> S \<Longrightarrow> \<bar>t :: real\<bar> \<le> sqrt S"
  by (metis abs_ge_zero power2_abs real_le_rsqrt)

lemma radians_0 [simp]: "radians 0 = 0"
  by (simp add: radians_def)

end
