(* ===== verification/Catalog.thy ===== *)
theory Catalog
  imports Prelude
begin

text \<open>
  The catalog part of \<open>HipparcosLogProb.__init__\<close> (src/compute_chi2.py,
  lines 34--53): the Vizier query of the van Leeuwen catalog I/311/hip2
  returns a list of tables, each a list of rows with the requested columns;
  the constructor reads row 0 of table 0 into ten attributes. The query
  itself (network I/O) is not modelled: its result is the input of
  \<open>load_catalog\<close>. An empty result raises \<open>IndexError\<close> at
  \<open>[0]\<close>. The attributes are the record \<open>catalog\<close>, which the
  reconstructor's state extends.
\<close>

record vizier_row =
  RArad :: real
  e_RArad :: real
  DErad :: real
  e_DErad :: real
  Plx :: real
  e_Plx :: real
  pmRA :: real
  e_pmRA :: real
  pmDE :: real
  e_pmDE :: real
  F2 :: real

record catalog =
  hip_num :: string
  plx0 :: real
  pm_ra0 :: real
  pm_dec0 :: real
  alpha0 :: real
  delta0 :: real
  plx0_err :: real
  pm_ra0_err :: real
  pm_dec0_err :: real
  alpha0_err :: real
  delta0_err :: real

text \<open>
  \<open>query_constraints(HIP=hip_num)[0]\<close> picks table 0 and
  \<open>hip_cat['Plx'][0]\<close> row 0 of it; both raise \<open>IndexError\<close> when
  there is nothing to pick.
\<close>

fun first_row :: "vizier_row list list \<Rightarrow> py_error + vizier_row" where
  "first_row [] = Inl IndexError"
| "first_row ([] # _) = Inl IndexError"
| "first_row ((r # _) # _) = Inr r"

definition catalog_of_row :: "string \<Rightarrow> vizier_row \<Rightarrow> catalog" where
  "catalog_of_row num r =
     \<lparr>hip_num = num,
      plx0 = Plx r, pm_ra0 = pmRA r, pm_dec0 = pmDE r,
      alpha0 = RArad r, delta0 = DErad r,
      plx0_err = e_Plx r, pm_ra0_err = e_pmRA r, pm_dec0_err = e_pmDE r,
      alpha0_err = e_RArad r, delta0_err = e_DErad r\<rparr>"

definition load_catalog :: "string \<Rightarrow> vizier_row list list \<Rightarrow> py_error + catalog" where
  "load_catalog num tables =
     (case first_row tables of
        Inl e \<Rightarrow> Inl e
      | Inr r \<Rightarrow> Inr (catalog_of_row num r))"

lemma load_catalog_Inr_iff:
  "load_catalog num tables = Inr c \<longleftrightarrow>
     (\<exists>r rs ts. tables = (r # rs) # ts \<and> c = catalog_of_row num r)"
  by (cases tables rule: first_row.cases) (auto simp: load_catalog_def)

lemma load_catalog_Inl_iff:
  "load_catalog num tables = Inl e \<longleftrightarrow>
     e = IndexError \<and> (tables = [] \<or> (\<exists>ts. tables = [] # ts))"
  by (cases tables rule: first_row.cases) (auto simp: load_catalog_def)

text \<open>The constructor keeps the catalog values unchanged, each in its attribute.\<close>

lemma catalog_of_row_fields [simp]:
  "plx0 (catalog_of_row num r) = Plx r"
  "pm_ra0 (catalog_of_row num r) = pmRA r"
  "pm_dec0 (catalog_of_row num r) = pmDE r"
  "alpha0 (catalog_of_row num r) = RArad r"
  "delta0 (catalog_of_row num r) = DErad r"
  "hip_num (catalog_of_row num r) = num"
  by (simp_all add: catalog_of_row_def)

end
