(* ===== verification/Observations.thy ===== *)
theory Observations
  imports Prelude
begin

text \<open>
  The intermediate astrometric data (IAD) part of \<open>HipparcosLogProb.__init__\<close>
  (src/compute_chi2.py, lines 55--66). \<open>np.loadtxt(file_name, skiprows=1)\<close>
  turns the data rows of the file into an array (reading and parsing the
  text is not modelled: the numeric rows are the input). numpy squeezes
  every axis of length one: a file of one row, or of one column, gives a
  one-dimensional array, a file of one value a zero-dimensional one
  (\<open>np_loadtxt\<close>). \<open>np.transpose\<close> then makes the columns of a table
  addressable as \<open>iad[k]\<close>; on a squeezed array \<open>iad[k]\<close> is the
  \<open>k\<close>-th value instead, a scalar. Column 1 is the epoch offset from
  1991.25 in years, columns 3 and 4 the scan direction, 5 the abscissa
  residual and 6 its error. numpy raises \<open>ValueError\<close> on rows of
  different lengths and \<open>IndexError\<close> when there is no entry \<open>k\<close>.
  The record \<open>iad_columns\<close> keeps the five series and their number of
  dimensions \<open>iad_ndim\<close> (0 when they are scalars).
\<close>

record iad_columns =
  iad_ndim :: nat
  iad_times :: "real list"
  iad_cos_phi :: "real list"
  iad_sin_phi :: "real list"
  iad_R :: "real list"
  iad_eps :: "real list"

text \<open>
  \<open>np.loadtxt\<close> on the numeric rows: no rows give an empty 1-d array, rows
  of different lengths \<open>ValueError\<close>, and axes of length one are squeezed.
\<close>

definition np_loadtxt :: "real list list \<Rightarrow> py_error + ndarray" where
  "np_loadtxt rows =
     (if rows = [] then Inr (Arr1 [])
      else if \<not> is_matrix rows (length (hd rows)) then Inl ValueError
      else if length rows = 1 \<and> length (hd rows) = 1 then Inr (Arr0 (hd (hd rows)))
      else if length rows = 1 then Inr (Arr1 (hd rows))
      else if length (hd rows) = 1 then Inr (Arr1 (map hd rows))
      else Inr (Arr2 rows))"

text \<open>Lines 57--66: transpose, then read \<open>iad[1]\<close>, \<open>iad[3]\<close> to \<open>iad[6]\<close> in this order.\<close>

definition load_iad :: "real list list \<Rightarrow> py_error + iad_columns" where
  "load_iad rows =
     (case np_loadtxt rows of
        Inl e \<Rightarrow> Inl e
      | Inr a \<Rightarrow>
          (let iad = np_transpose a in
           case np_getitem iad 1 of Inl e \<Rightarrow> Inl e | Inr t \<Rightarrow>
           case np_getitem iad 3 of Inl e \<Rightarrow> Inl e | Inr cp \<Rightarrow>
           case np_getitem iad 4 of Inl e \<Rightarrow> Inl e | Inr sp \<Rightarrow>
           case np_getitem iad 5 of Inl e \<Rightarrow> Inl e | Inr res \<Rightarrow>
           case np_getitem iad 6 of Inl e \<Rightarrow> Inl e | Inr err \<Rightarrow>
             Inr \<lparr>iad_ndim = np_ndim t, iad_times = sadd 1991.25 (np_values t),
                  iad_cos_phi = np_values cp, iad_sin_phi = np_values sp,
                  iad_R = np_values res, iad_eps = np_values err\<rparr>))"

subsection \<open>What the load returns, by the shape of the file\<close>

lemma load_iad_Nil: "load_iad [] = Inl IndexError"
  by (simp add: load_iad_def np_loadtxt_def)

lemma load_iad_ragged:
  "rows \<noteq> [] \<Longrightarrow> \<not> is_matrix rows (length (hd rows)) \<Longrightarrow> load_iad rows = Inl ValueError"
  by (simp add: load_iad_def np_loadtxt_def)

text \<open>
  A table of at least two columns: \<open>iad[k]\<close> is column \<open>k\<close> of the file
  (a scalar when the file has one row), and fewer than seven columns raise.
\<close>

lemma load_iad_table:
  assumes "rows \<noteq> []" "is_matrix rows m" "2 \<le> m"
  shows "load_iad rows =
           (if m < 7 then Inl IndexError
            else Inr \<lparr>iad_ndim = (if length rows = 1 then 0 else 1),
                      iad_times = sadd 1991.25 (column rows 1),
                      iad_cos_phi = column rows 3, iad_sin_phi = column rows 4,
                      iad_R = column rows 5, iad_eps = column rows 6\<rparr>)"
proof (cases "length rows = 1")
  case True
  then obtain r where r: "rows = [r]" by (cases rows) (auto simp: length_Suc_conv)
  with assms have "length r = m" by (simp add: is_matrix_def)
  with r assms show ?thesis by (simp add: load_iad_def np_loadtxt_def is_matrix_def)
next
  case False
  have hd: "length (hd rows) = m" using assms(1,2) by (cases rows) (simp_all add: is_matrix_def)
  have "transpose rows = map (column rows) [0..<m]"
    by (rule transpose_matrix [OF assms(2,1)])
  with False assms hd show ?thesis by (simp add: load_iad_def np_loadtxt_def)
qed

text \<open>
  A single column: the array is squeezed to the column itself, and
  \<open>iad[k]\<close> is the value in row \<open>k\<close>. With seven rows or more the load
  succeeds, as one epoch read from rows 1 and 3 to 6.
\<close>

lemma load_iad_single_column:
  assumes "rows \<noteq> []" "is_matrix rows 1"
  shows "load_iad rows =
           (if length rows < 7 then Inl IndexError
            else Inr \<lparr>iad_ndim = 0, iad_times = [1991.25 + rows ! 1 ! 0],
                      iad_cos_phi = [rows ! 3 ! 0], iad_sin_phi = [rows ! 4 ! 0],
                      iad_R = [rows ! 5 ! 0], iad_eps = [rows ! 6 ! 0]\<rparr>)"
proof -
  have hd: "length (hd rows) = 1" using assms by (cases rows) (simp_all add: is_matrix_def)
  have "hd (rows ! k) = rows ! k ! 0" if "k < length rows" for k
    using is_matrix_nth [OF assms(2) that] by (cases "rows ! k") simp_all
  with assms hd show ?thesis
    by (auto simp: load_iad_def np_loadtxt_def sadd_def)
qed

lemma load_iad_no_column:
  assumes "rows \<noteq> []" "is_matrix rows 0"
  shows "load_iad rows = Inl IndexError"
proof -
  have "transpose rows = []"
    using length_transpose_matrix [OF assms(2,1)] by simp
  with assms show ?thesis
    by (cases rows) (auto simp: load_iad_def np_loadtxt_def is_matrix_def)
qed

text \<open>The load by cases on the shape of the file.\<close>

lemma load_iad_eq:
  "load_iad rows =
     (if rows = [] then Inl IndexError
      else if \<not> is_matrix rows (length (hd rows)) then Inl ValueError
      else if length (hd rows) = 1 then
        (if length rows < 7 then Inl IndexError
         else Inr \<lparr>iad_ndim = 0, iad_times = [1991.25 + rows ! 1 ! 0],
                   iad_cos_phi = [rows ! 3 ! 0], iad_sin_phi = [rows ! 4 ! 0],
                   iad_R = [rows ! 5 ! 0], iad_eps = [rows ! 6 ! 0]\<rparr>)
      else if length (hd rows) < 7 then Inl IndexError
      else Inr \<lparr>iad_ndim = (if length rows = 1 then 0 else 1),
                iad_times = sadd 1991.25 (column rows 1),
                iad_cos_phi = column rows 3, iad_sin_phi = column rows 4,
                iad_R = column rows 5, iad_eps = column rows 6\<rparr>)"
proof -
  consider "rows = []" | "rows \<noteq> []" "\<not> is_matrix rows (length (hd rows))"
    | "rows \<noteq> []" "is_matrix rows (length (hd rows))" "length (hd rows) = 0"
    | "rows \<noteq> []" "is_matrix rows (length (hd rows))" "length (hd rows) = 1"
    | "rows \<noteq> []" "is_matrix rows (length (hd rows))" "2 \<le> length (hd rows)"
    by linarith
  then show ?thesis
  proof cases
    case 1
    then show ?thesis by (simp add: load_iad_Nil)
  next
    case 2
    then show ?thesis by (simp add: load_iad_ragged)
  next
    case 3
    then show ?thesis using load_iad_no_column [of rows] by simp
  next
    case 4
    then show ?thesis using load_iad_single_column [of rows] by simp
  next
    case 5
    then show ?thesis using load_iad_table [of rows "length (hd rows)"] by simp
  qed
qed

lemma load_iad_Inr_iff:
  "load_iad rows = Inr cols \<longleftrightarrow>
     rows \<noteq> [] \<and> is_matrix rows (length (hd rows)) \<and>
     (if length (hd rows) = 1 then
        7 \<le> length rows \<and>
        cols = \<lparr>iad_ndim = 0, iad_times = [1991.25 + rows ! 1 ! 0],
                iad_cos_phi = [rows ! 3 ! 0], iad_sin_phi = [rows ! 4 ! 0],
                iad_R = [rows ! 5 ! 0], iad_eps = [rows ! 6 ! 0]\<rparr>
      else
        7 \<le> length (hd rows) \<and>
        cols = \<lparr>iad_ndim = (if length rows = 1 then 0 else 1),
                iad_times = sadd 1991.25 (column rows 1),
                iad_cos_phi = column rows 3, iad_sin_phi = column rows 4,
                iad_R = column rows 5, iad_eps = column rows 6\<rparr>)"
  by (auto simp add: load_iad_eq)

text \<open>
  A successful load gives five series of one length, one entry per data
  row for a table and a single entry for a single column; the series are
  scalars (\<open>iad_ndim = 0\<close>) exactly when they have one entry.
\<close>

lemma load_iad_lengths:
  assumes "load_iad rows = Inr cols"
  defines "n \<equiv> (if length (hd rows) = 1 then 1 else length rows)"
  shows "length (iad_times cols) = n" "length (iad_cos_phi cols) = n"
    "length (iad_sin_phi cols) = n" "length (iad_R cols) = n"
    "length (iad_eps cols) = n" "rows \<noteq> []"
    "iad_ndim cols = (if n = 1 then 0 else 1)"
  using assms by (auto simp: load_iad_Inr_iff split: if_splits)

lemma load_iad_times:
  assumes "load_iad rows = Inr cols" "length (hd rows) \<noteq> 1" "i < length rows"
  shows "iad_times cols ! i - 1991.25 = rows ! i ! 1"
  using assms by (auto simp: load_iad_Inr_iff)

end
