(* ===== verification/Reconstruct.thy ===== *)
theory Reconstruct
  imports Catalog Observations
begin

text \<open>
  The whole constructor \<open>HipparcosLogProb.__init__\<close> (src/compute_chi2.py,
  lines 30--92): the object's attributes are the record \<open>hip_state\<close>,
  which extends the catalog attributes with the per-epoch arrays. Two
  collaborators are external and enter as the record \<open>externals\<close>:
  astropy's time conversion from decimal year to MJD (\<open>Time.mjd\<close>; the
  round trip \<open>Time(times, format='decimalyear').decimalyear\<close> is taken
  to be the identity) and the Earth's barycentric position
  (\<open>get_body_barycentric_posvel\<close>, in au). The reconstruction of
  Nielsen et al.\ (2020) Eqs.\ 1--3 is \<open>changein_alpha_st\<close>,
  \<open>changein_delta\<close> and \<open>reconstruct\<close>. The invariant \<open>hip_wf\<close>
  says that every per-epoch array has one entry per epoch, and that the
  arrays are zero-dimensional (\<open>epoch_ndim = 0\<close>, numpy scalars) exactly
  when there is one epoch; every successful construction establishes it,
  and nothing changes the state afterwards.
\<close>

record externals =
  decimalyear_to_mjd :: "real \<Rightarrow> real"
  earth_barycentric :: "real \<Rightarrow> real \<times> real \<times> real"

record hip_state = catalog +
  epoch_ndim :: nat
  epochs :: "real list"
  epochs_mjd :: "real list"
  cos_phi :: "real list"
  sin_phi :: "real list"
  R :: "real list"
  eps :: "real list"
  X :: "real list"
  Y :: "real list"
  Z :: "real list"
  alpha_abs_st :: "real list"
  delta_abs :: "real list"

text \<open>
  The parallax factors of one epoch: the coefficients of the parallax in
  the right-ascension and declination displacement, for an Earth position
  \<open>(x, y, z)\<close> and a catalog position in degrees.
\<close>

definition parallax_ra_factor :: "real \<Rightarrow> real \<Rightarrow> real \<Rightarrow> real" where
  "parallax_ra_factor a x y = x * sin (radians a) - y * cos (radians a)"

definition parallax_dec_factor :: "real \<Rightarrow> real \<Rightarrow> real \<Rightarrow> real \<Rightarrow> real \<Rightarrow> real" where
  "parallax_dec_factor a d x y z =
     x * cos (radians a) * sin (radians d) + y * sin (radians a) * sin (radians d) -
     z * cos (radians d)"

text \<open>The arrays the constructor fills before the reconstruction (lines 44--72).\<close>

definition observe :: "externals \<Rightarrow> catalog \<Rightarrow> iad_columns \<Rightarrow> hip_state" where
  "observe ext cat cols =
     (let times = iad_times cols;
          xyz = map (earth_barycentric ext) times
      in catalog.extend cat
          (hip_state.fields (iad_ndim cols) times (map (decimalyear_to_mjd ext) times)
             (iad_cos_phi cols) (iad_sin_phi cols) (iad_R cols) (iad_eps cols)
             (map fst xyz) (map (fst \<circ> snd) xyz) (map (snd \<circ> snd) xyz) [] []))"

definition changein_alpha_st :: "hip_state \<Rightarrow> real list" where
  "changein_alpha_st st =
     vadd (smul (plx0 st) (vsub (smul (sin (radians (alpha0 st))) (X st))
                                (smul (cos (radians (alpha0 st))) (Y st))))
          (smul (pm_ra0 st) (subs (epochs st) 1991.25))"

definition changein_delta :: "hip_state \<Rightarrow> real list" where
  "changein_delta st =
     vadd (smul (plx0 st)
            (vsub (vadd (smul (sin (radians (delta0 st))) (smul (cos (radians (alpha0 st))) (X st)))
                        (smul (sin (radians (delta0 st))) (smul (sin (radians (alpha0 st))) (Y st))))
                  (smul (cos (radians (delta0 st))) (Z st))))
          (smul (pm_dec0 st) (subs (epochs st) 1991.25))"

definition reconstruct :: "hip_state \<Rightarrow> hip_state" where
  "reconstruct st =
     st\<lparr>alpha_abs_st := vadd (vmul (R st) (cos_phi st)) (changein_alpha_st st),
        delta_abs := vadd (vmul (R st) (sin_phi st)) (changein_delta st)\<rparr>"

definition init_hip ::
  "externals \<Rightarrow> string \<Rightarrow> vizier_row list list \<Rightarrow> real list list \<Rightarrow> py_error + hip_state" where
  "init_hip ext num tables rows =
     (case load_catalog num tables of
        Inl e \<Rightarrow> Inl e
      | Inr cat \<Rightarrow>
          (case load_iad rows of
             Inl e \<Rightarrow> Inl e
           | Inr cols \<Rightarrow> Inr (reconstruct (observe ext cat cols))))"

text \<open>
  The arrays read from the data sources have one entry per epoch; the two
  reconstructed series are then of that length too.
\<close>

definition hip_wf' :: "hip_state \<Rightarrow> bool" where
  "hip_wf' st \<longleftrightarrow>
     (let n = length (epochs st) in
      length (epochs_mjd st) = n \<and> length (cos_phi st) = n \<and> length (sin_phi st) = n \<and>
      length (R st) = n \<and> length (eps st) = n \<and> length (X st) = n \<and> length (Y st) = n \<and>
      length (Z st) = n \<and> epoch_ndim st = (if n = 1 then 0 else 1))"

definition hip_wf :: "hip_state \<Rightarrow> bool" where
  "hip_wf st \<longleftrightarrow>
     (let n = length (epochs st) in
      length (epochs_mjd st) = n \<and> length (cos_phi st) = n \<and> length (sin_phi st) = n \<and>
      length (R st) = n \<and> length (eps st) = n \<and> length (X st) = n \<and> length (Y st) = n \<and>
      length (Z st) = n \<and> length (alpha_abs_st st) = n \<and> length (delta_abs st) = n \<and>
      epoch_ndim st = (if n = 1 then 0 else 1))"

subsection \<open>The constructed state\<close>

lemma observe_fields [simp]:
  "epoch_ndim (observe ext cat cols) = iad_ndim cols"
  "epochs (observe ext cat cols) = iad_times cols"
  "epochs_mjd (observe ext cat cols) = map (decimalyear_to_mjd ext) (iad_times cols)"
  "cos_phi (observe ext cat cols) = iad_cos_phi cols"
  "sin_phi (observe ext cat cols) = iad_sin_phi cols"
  "R (observe ext cat cols) = iad_R cols"
  "eps (observe ext cat cols) = iad_eps cols"
  "X (observe ext cat cols) = map (\<lambda>t. fst (earth_barycentric ext t)) (iad_times cols)"
  "Y (observe ext cat cols) = map (\<lambda>t. fst (snd (earth_barycentric ext t))) (iad_times cols)"
  "Z (observe ext cat cols) = map (\<lambda>t. snd (snd (earth_barycentric ext t))) (iad_times cols)"
  "plx0 (observe ext cat cols) = plx0 cat"
  "pm_ra0 (observe ext cat cols) = pm_ra0 cat"
  "pm_dec0 (observe ext cat cols) = pm_dec0 cat"
  "alpha0 (observe ext cat cols) = alpha0 cat"
  "delta0 (observe ext cat cols) = delta0 cat"
  by (simp_all add: observe_def catalog.defs hip_state.defs Let_def)

lemma init_hip_Inr_iff:
  "init_hip ext num tables rows = Inr st \<longleftrightarrow>
     (\<exists>cat cols. load_catalog num tables = Inr cat \<and> load_iad rows = Inr cols \<and>
                st = reconstruct (observe ext cat cols))"
  by (auto simp: init_hip_def split: sum.splits)

text \<open>Entry \<open>i\<close> of the reconstructed photocenter series (Nielsen et al.\\ Eqs.\\ 1--3).\<close>

lemma reconstruct_nth:
  assumes "hip_wf' st" "i < length (epochs st)"
  shows "alpha_abs_st (reconstruct st) ! i =
           R st ! i * cos_phi st ! i +
           (plx0 st * parallax_ra_factor (alpha0 st) (X st ! i) (Y st ! i) +
            pm_ra0 st * (epochs st ! i - 1991.25))"
    and "delta_abs (reconstruct st) ! i =
           R st ! i * sin_phi st ! i +
           (plx0 st * parallax_dec_factor (alpha0 st) (delta0 st) (X st ! i) (Y st ! i) (Z st ! i) +
            pm_dec0 st * (epochs st ! i - 1991.25))"
  using assms
  by (simp_all add: reconstruct_def changein_alpha_st_def changein_delta_def hip_wf'_def
      parallax_ra_factor_def parallax_dec_factor_def Let_def algebra_simps)

lemma hip_wf'_observe:
  "load_iad rows = Inr cols \<Longrightarrow> hip_wf' (observe ext cat cols)"
  by (simp add: hip_wf'_def load_iad_lengths)

lemma hip_wf_reconstruct: "hip_wf' st \<Longrightarrow> hip_wf (reconstruct st)"
  by (simp add: hip_wf_def hip_wf'_def reconstruct_def changein_alpha_st_def changein_delta_def
      Let_def)

lemma init_hip_state:
  assumes "init_hip ext num tables rows = Inr st"
  obtains st0 r where "st = reconstruct st0" "hip_wf' st0"
    "length (epochs st0) = (if length (hd rows) = 1 then 1 else length rows)"
    "rows \<noteq> []" "is_matrix rows (length (hd rows))"
    "tables \<noteq> []" "hd tables \<noteq> []" "r = hd (hd tables)"
    "plx0 st0 = Plx r" "pm_ra0 st0 = pmRA r" "pm_dec0 st0 = pmDE r"
    "alpha0 st0 = RArad r" "delta0 st0 = DErad r"
    "\<And>i. length (hd rows) \<noteq> 1 \<Longrightarrow> i < length rows \<Longrightarrow>
        epochs st0 ! i - 1991.25 = rows ! i ! 1 \<and> cos_phi st0 ! i = rows ! i ! 3 \<and>
        sin_phi st0 ! i = rows ! i ! 4 \<and> R st0 ! i = rows ! i ! 5 \<and> eps st0 ! i = rows ! i ! 6"
proof -
  from assms obtain cat cols where cat: "load_catalog num tables = Inr cat"
    and cols: "load_iad rows = Inr cols" and st: "st = reconstruct (observe ext cat cols)"
    by (auto simp: init_hip_Inr_iff)
  from cat obtain r rs ts where tb: "tables = (r # rs) # ts" "cat = catalog_of_row num r"
    by (auto simp: load_catalog_Inr_iff)
  show ?thesis
    by (rule that [OF st hip_wf'_observe [OF cols]])
      (use cols tb load_iad_lengths [OF cols] load_iad_times [OF cols] in
        \<open>auto simp: load_iad_Inr_iff split: if_splits\<close>)
qed

lemma init_hip_epoch_ndim:
  assumes "init_hip ext num tables rows = Inr st"
  shows "epoch_ndim st = (if length rows = 1 \<or> length (hd rows) = 1 then 0 else 1)"
proof -
  obtain st0 where "st = reconstruct st0" "hip_wf' st0"
    "length (epochs st0) = (if length (hd rows) = 1 then 1 else length rows)"
    using init_hip_state [OF assms] by metis
  then show ?thesis by (simp add: hip_wf'_def reconstruct_def Let_def)
qed

lemma reconstruct_frame [simp]:
  "epoch_ndim (reconstruct st) = epoch_ndim st"
  "epochs (reconstruct st) = epochs st" "epochs_mjd (reconstruct st) = epochs_mjd st"
  "cos_phi (reconstruct st) = cos_phi st" "sin_phi (reconstruct st) = sin_phi st"
  "R (reconstruct st) = R st" "eps (reconstruct st) = eps st"
  "X (reconstruct st) = X st" "Y (reconstruct st) = Y st" "Z (reconstruct st) = Z st"
  "plx0 (reconstruct st) = plx0 st" "pm_ra0 (reconstruct st) = pm_ra0 st"
  "pm_dec0 (reconstruct st) = pm_dec0 st" "alpha0 (reconstruct st) = alpha0 st"
  "delta0 (reconstruct st) = delta0 st"
  by (simp_all add: reconstruct_def)

text \<open>
  C10 (invariant): a successful construction yields a state in which every
  per-epoch array, the reconstructed photocenter series included, has one
  entry per epoch, the arrays are scalars exactly when there is one epoch,
  and the epochs are the data rows of the IAD file (a single one for a
  file of one column).
\<close>

theorem init_hip_wf:
  assumes "init_hip ext num tables rows = Inr st"
  shows "hip_wf st \<and>
         length (epochs st) = (if length (hd rows) = 1 then 1 else length rows) \<and> rows \<noteq> []"
proof -
  obtain st0 where "st = reconstruct st0" "hip_wf' st0"
    "length (epochs st0) = (if length (hd rows) = 1 then 1 else length rows)" "rows \<noteq> []"
    using init_hip_state [OF assms] by metis
  moreover have "epochs (reconstruct st0) = epochs st0"
    by (simp add: reconstruct_def)
  ultimately show ?thesis
    using hip_wf_reconstruct by simp
qed

text \<open>
  C11 (error): construction fails exactly when the catalog query returns no
  row, or the IAD table is empty or ragged, or has fewer than seven columns
  (fewer than seven rows, for a file of a single column, which numpy
  squeezes to that column); it fails with \<open>ValueError\<close> exactly when the
  catalog row exists and the IAD rows have different lengths (the other
  failures are \<open>IndexError\<close>).
\<close>

theorem init_hip_errors:
  "((\<exists>e. init_hip ext num tables rows = Inl e) \<longleftrightarrow>
      tables = [] \<or> hd tables = [] \<or> rows = [] \<or> \<not> is_matrix rows (length (hd rows)) \<or>
      (if length (hd rows) = 1 then length rows < 7 else length (hd rows) < 7)) \<and>
   (init_hip ext num tables rows = Inl ValueError \<longleftrightarrow>
      tables \<noteq> [] \<and> hd tables \<noteq> [] \<and> rows \<noteq> [] \<and> \<not> is_matrix rows (length (hd rows)))"
  by (cases tables rule: first_row.cases)
    (auto simp: init_hip_def load_catalog_def load_iad_eq)

text \<open>
  C15 (error): a file of a single column is not rejected: with at least
  seven rows, numpy squeezes it to that column, and the constructor reads
  one epoch whose time, scan direction, residual and error are the values
  in rows 1 and 3 to 6.
\<close>

theorem init_hip_single_column:
  assumes "tables = (r # rs) # ts" "is_matrix rows 1" "7 \<le> length rows"
  shows "\<exists>st. init_hip ext num tables rows = Inr st \<and> epoch_ndim st = 0 \<and>
           epochs st = [1991.25 + rows ! 1 ! 0] \<and> cos_phi st = [rows ! 3 ! 0] \<and>
           sin_phi st = [rows ! 4 ! 0] \<and> R st = [rows ! 5 ! 0] \<and> eps st = [rows ! 6 ! 0]"
proof -
  have "rows \<noteq> []" "length (hd rows) = 1"
    using assms(2,3) by (cases rows; simp add: is_matrix_def)+
  with assms show ?thesis
    by (simp add: init_hip_def load_catalog_def load_iad_eq)
qed


end
