(* ===== verification/Likelihood.thy ===== *)
theory Likelihood
  imports Reconstruct
begin

text \<open>
  \<open>HipparcosLogProb.compute_lnprob\<close> (src/compute_chi2.py, lines 94--208):
  the batched log-likelihood of \<open>M\<close> candidate orbits, the columns of the
  \<open>P \<times> M\<close> array \<open>samples\<close>. Its rows are unpacked into the parameter
  arrays \<open>astro_params\<close> and, for \<open>P = 13\<close>, \<open>orbit_params\<close>; the
  choice between the two layouts is the datatype \<open>planets\<close>. The epoch
  loop computes one row \<open>dist[i, :]\<close> of scan-direction residuals for all
  candidates at once (\<open>epoch_dist\<close>), the chi-square is reduced per
  candidate (\<open>chi2_terms\<close>, \<open>np_sum_axis1\<close>), the parallax prior is a final masking pass
  (\<open>mask_bad_plx\<close>) and \<open>negative\<close> flips the sign.

  The orbit solver \<open>orbitize.kepler.calc_orbit\<close> is external: it is a
  parameter \<open>calc\<close> of type \<open>orbit_model\<close>, a function of one epoch (MJD)
  and one orbit \<open>(sma, ecc, inc, aop, pan, tau, plx, mtot)\<close> to the offsets
  \<open>(raoff, decoff, vz)\<close>, applied entry by entry to the candidate arrays
  as numpy does.

  The second half states the contract of the evaluator per candidate, as
  the spec writes it (\<open>cand_lnprob\<close> on one \<open>candidate\<close>), and proves
  that the batched code computes exactly that, candidate by candidate.
\<close>

type_synonym orbit_model =
  "real \<Rightarrow> real \<Rightarrow> real \<Rightarrow> real \<Rightarrow> real \<Rightarrow> real \<Rightarrow> real \<Rightarrow> real \<Rightarrow> real \<Rightarrow> real \<times> real \<times> real"

section \<open>The batched evaluator\<close>

record astro_params =
  pm_ra :: "real list"
  pm_dec :: "real list"
  alpha_H0 :: "real list"
  delta_H0 :: "real list"
  plx :: "real list"

record orbit_params =
  sma :: "real list"
  ecc :: "real list"
  inc :: "real list"
  aop :: "real list"
  pan :: "real list"
  tau :: "real list"
  mtot :: "real list"
  m1 :: "real list"

datatype planets = NoPlanet | OnePlanet orbit_params

definition astro_of :: "real list list \<Rightarrow> astro_params" where
  "astro_of samples =
     \<lparr>pm_ra = samples ! 0, pm_dec = samples ! 1, alpha_H0 = samples ! 2,
      delta_H0 = samples ! 3, plx = samples ! 4\<rparr>"

definition planets_of :: "real list list \<Rightarrow> planets option" where
  "planets_of samples =
     (if length samples = 5 then Some NoPlanet
      else if length samples = 13 then
        Some (OnePlanet \<lparr>sma = samples ! 5, ecc = samples ! 6, inc = samples ! 7,
                         aop = samples ! 8, pan = samples ! 9, tau = samples ! 10,
                         mtot = samples ! 11, m1 = samples ! 12\<rparr>)
      else None)"

text \<open>\<open>calc_orbit\<close> called on arrays of orbits: one result per entry.\<close>

definition calc_orbit_vec ::
  "orbit_model \<Rightarrow> real \<Rightarrow> orbit_params \<Rightarrow> real list \<Rightarrow> real list \<times> real list \<times> real list" where
  "calc_orbit_vec calc t orb plx_v =
     (let r = map (\<lambda>j. calc t (sma orb ! j) (ecc orb ! j) (inc orb ! j) (aop orb ! j) (pan orb ! j)
                          (tau orb ! j) (plx_v ! j) (mtot orb ! j)) [0..<length (sma orb)]
      in (map fst r, map (fst \<circ> snd) r, map (snd \<circ> snd) r))"

text \<open>Lines 179--186: the star's reflex offset, \<open>-m1/mtot\<close> times the companion's.\<close>

definition orbit_offset ::
  "orbit_model \<Rightarrow> real \<Rightarrow> real list \<Rightarrow> orbit_params \<Rightarrow> real list \<times> real list" where
  "orbit_offset calc t plx_v orb =
     (case calc_orbit_vec calc t orb plx_v of
        (raoff, decoff, _) \<Rightarrow>
          (vmul raoff (vdiv (vneg (m1 orb)) (mtot orb)), vmul decoff (vdiv (vneg (m1 orb)) (mtot orb))))"

text \<open>Lines 165--173: the expected offset from the catalog photocenter at epoch \<open>i\<close>.\<close>

definition model_alpha :: "hip_state \<Rightarrow> astro_params \<Rightarrow> nat \<Rightarrow> real list" where
  "model_alpha st p i =
     vadd (vadd (alpha_H0 p) (smul (parallax_ra_factor (alpha0 st) (X st ! i) (Y st ! i)) (plx p)))
          (smul (epochs st ! i - 1991.25) (pm_ra p))"

definition model_delta :: "hip_state \<Rightarrow> astro_params \<Rightarrow> nat \<Rightarrow> real list" where
  "model_delta st p i =
     vadd (vadd (delta_H0 p)
                (smul (parallax_dec_factor (alpha0 st) (delta0 st) (X st ! i) (Y st ! i) (Z st ! i))
                      (plx p)))
          (smul (epochs st ! i - 1991.25) (pm_dec p))"

text \<open>Lines 165--189: the model position, with the orbit perturbation when \<open>n_planets == 1\<close>.\<close>

definition epoch_position ::
  "orbit_model \<Rightarrow> hip_state \<Rightarrow> astro_params \<Rightarrow> planets \<Rightarrow> nat \<Rightarrow> real list \<times> real list" where
  "epoch_position calc st p pl i =
     (let alpha_C_st = model_alpha st p i;
          delta_C = model_delta st p i
      in case pl of
           NoPlanet \<Rightarrow> (alpha_C_st, delta_C)
         | OnePlanet orb \<Rightarrow>
             (case orbit_offset calc (epochs_mjd st ! i) (plx p) orb of
                (raoff, decoff) \<Rightarrow> (vadd alpha_C_st raoff, vadd delta_C decoff)))"

text \<open>Lines 191--195: \<open>dist[i, :]\<close>, the residual along the scan direction (Nielsen Eq.\ 6).\<close>

definition epoch_dist ::
  "orbit_model \<Rightarrow> hip_state \<Rightarrow> astro_params \<Rightarrow> planets \<Rightarrow> nat \<Rightarrow> real list" where
  "epoch_dist calc st p pl i =
     (case epoch_position calc st p pl i of
        (alpha_C_st, delta_C) \<Rightarrow>
          vabs (vadd (smul (cos_phi st ! i) (ssub (alpha_abs_st st ! i) alpha_C_st))
                     (smul (sin_phi st ! i) (ssub (delta_abs st ! i) delta_C))))"

text \<open>
  Lines 159--195: \<open>dist = np.empty((n_epochs, n_samples))\<close>, then the loop
  assigns row \<open>i\<close> for every epoch. The initial content of \<open>np.empty\<close> is
  unspecified; it is taken to be zeros, and \<open>fill_rows_upt\<close> shows that
  it is never read.
\<close>

definition np_empty :: "nat \<Rightarrow> nat \<Rightarrow> real list list" where
  "np_empty n m = replicate n (replicate m 0)"

definition fill_rows :: "(nat \<Rightarrow> 'a) \<Rightarrow> 'a list \<Rightarrow> nat list \<Rightarrow> 'a list" where
  "fill_rows f d idx = foldl (\<lambda>d i. d[i := f i]) d idx"

text \<open>
  Line 198: the list \<open>[(dist[:, j] / self.eps)**2 for j in range(n_samples)]\<close>,
  one array of normalised squared residuals per candidate, which
  \<open>np.sum(..., axis=1)\<close> then reduces.
\<close>

definition chi2_terms :: "real list list \<Rightarrow> real list \<Rightarrow> nat \<Rightarrow> real list list" where
  "chi2_terms dists eps_v n_samples =
     map (\<lambda>j. map (\<lambda>x. x ^ 2) (vdiv (column dists j) eps_v)) [0..<n_samples]"

text \<open>Lines 202--203: \<open>bad_plx = np.where(plx <= 0)[0]; lnprob[bad_plx] = -np.inf\<close>.\<close>

definition bad_plx :: "real list \<Rightarrow> nat list" where
  "bad_plx plx_v = filter (\<lambda>j. plx_v ! j \<le> 0) [0..<length plx_v]"

definition mask_bad_plx :: "fval list \<Rightarrow> real list \<Rightarrow> fval list" where
  "mask_bad_plx lnprob plx_v = foldl (\<lambda>l j. l[j := NegInf]) lnprob (bad_plx plx_v)"

text \<open>Lines 205--206: \<open>lnprob *= -1\<close> when \<open>negative\<close>.\<close>

definition negate_if :: "bool \<Rightarrow> fval list \<Rightarrow> fval list" where
  "negate_if negative lnprob = (if negative then map uminus lnprob else lnprob)"

definition lnprob_batch ::
  "orbit_model \<Rightarrow> hip_state \<Rightarrow> astro_params \<Rightarrow> planets \<Rightarrow> bool \<Rightarrow> py_error + fval list" where
  "lnprob_batch calc st p pl negative =
     (let n_samples = length (pm_ra p)
      in if epoch_ndim st = 0 then Inl TypeError
      else
        let n_epochs = length (epochs st);
            dists = fill_rows (epoch_dist calc st p pl) (np_empty n_epochs n_samples) [0..<n_epochs]
        in case np_sum_axis1 (chi2_terms dists (eps st) n_samples) of
             Inl e \<Rightarrow> Inl e
           | Inr chi2 \<Rightarrow>
               (let lnprob = map (\<lambda>c. Fin (- 0.5 * c)) chi2
                in Inr (negate_if negative (mask_bad_plx lnprob (plx p)))))"

text \<open>
  The whole method. Reading \<open>samples[0]\<close> to \<open>samples[4]\<close> comes first and
  raises \<open>IndexError\<close> on fewer than five rows; any other count than 5 or 13
  prints a message and returns \<open>None\<close>. On zero-dimensional per-epoch
  arrays (an IAD file of one row or one column) \<open>len(self.epochs)\<close> of
  line 158 raises \<open>TypeError\<close>. An empty batch (\<open>M = 0\<close>) raises
  \<open>AxisError\<close> in the reduction of line 198.
\<close>

definition compute_lnprob ::
  "orbit_model \<Rightarrow> hip_state \<Rightarrow> real list list \<Rightarrow> bool \<Rightarrow> py_error + fval list option" where
  "compute_lnprob calc st samples negative =
     (if length samples < 5 then Inl IndexError
      else case planets_of samples of
             None \<Rightarrow> Inr None
           | Some pl \<Rightarrow>
               (case lnprob_batch calc st (astro_of samples) pl negative of
                  Inl e \<Rightarrow> Inl e
                | Inr lnprob \<Rightarrow> Inr (Some lnprob)))"

section \<open>The contract per candidate\<close>

text \<open>
  The spec (section 4.2) describes the evaluator one candidate at a time: a
  candidate is a column of \<open>samples\<close>, its expected photocenter at epoch
  \<open>i\<close> is the catalog offset plus parallax and proper motion, plus the
  reflex motion \<open>-m_secondary/mtot\<close> times the companion's offset when it
  has an orbit; its residual is the projection of the difference onto the
  scan direction, its chi-square the sum of squared residuals in units of
  \<open>eps\<close>, and its log-probability \<open>-chi2/2\<close>, or \<open>-inf\<close> when its
  parallax is not positive, negated on request.
\<close>

record orbit_elems =
  o_sma :: real
  o_ecc :: real
  o_inc :: real
  o_aop :: real
  o_pan :: real
  o_tau :: real
  o_mtot :: real
  o_m1 :: real

record candidate =
  c_pm_ra :: real
  c_pm_dec :: real
  c_alpha_H0 :: real
  c_delta_H0 :: real
  c_plx :: real
  c_orbit :: "orbit_elems option"

definition cand_position :: "orbit_model \<Rightarrow> hip_state \<Rightarrow> candidate \<Rightarrow> nat \<Rightarrow> real \<times> real" where
  "cand_position calc st c i =
     (let dt = epochs st ! i - 1991.25;
          a = c_alpha_H0 c + c_plx c * parallax_ra_factor (alpha0 st) (X st ! i) (Y st ! i) +
              dt * c_pm_ra c;
          d = c_delta_H0 c +
              c_plx c * parallax_dec_factor (alpha0 st) (delta0 st) (X st ! i) (Y st ! i) (Z st ! i) +
              dt * c_pm_dec c
      in case c_orbit c of
           None \<Rightarrow> (a, d)
         | Some orb \<Rightarrow>
             (case calc (epochs_mjd st ! i) (o_sma orb) (o_ecc orb) (o_inc orb) (o_aop orb)
                        (o_pan orb) (o_tau orb) (c_plx c) (o_mtot orb) of
                (ra, de, _) \<Rightarrow> (a + ra * (- o_m1 orb / o_mtot orb), d + de * (- o_m1 orb / o_mtot orb))))"

definition scan_residual :: "real \<Rightarrow> real \<Rightarrow> real \<Rightarrow> real \<Rightarrow> real" where
  "scan_residual cphi sphi da dd = \<bar>da * cphi + dd * sphi\<bar>"

definition cand_dist :: "orbit_model \<Rightarrow> hip_state \<Rightarrow> candidate \<Rightarrow> nat \<Rightarrow> real" where
  "cand_dist calc st c i =
     (case cand_position calc st c i of
        (a, d) \<Rightarrow> scan_residual (cos_phi st ! i) (sin_phi st ! i)
                    (alpha_abs_st st ! i - a) (delta_abs st ! i - d))"

definition cand_chi2 :: "orbit_model \<Rightarrow> hip_state \<Rightarrow> candidate \<Rightarrow> real" where
  "cand_chi2 calc st c = (\<Sum>i\<leftarrow>[0..<length (epochs st)]. (cand_dist calc st c i / eps st ! i) ^ 2)"

definition cand_lnprob :: "orbit_model \<Rightarrow> hip_state \<Rightarrow> candidate \<Rightarrow> bool \<Rightarrow> fval" where
  "cand_lnprob calc st c negative =
     (let lp = (if c_plx c \<le> 0 then NegInf else Fin (- 0.5 * cand_chi2 calc st c))
      in if negative then - lp else lp)"

definition candidate_of :: "real list list \<Rightarrow> nat \<Rightarrow> candidate" where
  "candidate_of samples j =
     \<lparr>c_pm_ra = samples ! 0 ! j, c_pm_dec = samples ! 1 ! j, c_alpha_H0 = samples ! 2 ! j,
      c_delta_H0 = samples ! 3 ! j, c_plx = samples ! 4 ! j,
      c_orbit = (if length samples = 13 then
                   Some \<lparr>o_sma = samples ! 5 ! j, o_ecc = samples ! 6 ! j, o_inc = samples ! 7 ! j,
                         o_aop = samples ! 8 ! j, o_pan = samples ! 9 ! j, o_tau = samples ! 10 ! j,
                         o_mtot = samples ! 11 ! j, o_m1 = samples ! 12 ! j\<rparr>
                 else None)\<rparr>"

definition candidates :: "real list list \<Rightarrow> candidate list" where
  "candidates samples = map (candidate_of samples) [0..<length (samples ! 0)]"

text \<open>Lengths of the parameter arrays, and the candidate in column \<open>j\<close> of them.\<close>

definition astro_len :: "astro_params \<Rightarrow> nat \<Rightarrow> bool" where
  "astro_len p m \<longleftrightarrow>
     length (pm_ra p) = m \<and> length (pm_dec p) = m \<and> length (alpha_H0 p) = m \<and>
     length (delta_H0 p) = m \<and> length (plx p) = m"

definition planets_len :: "planets \<Rightarrow> nat \<Rightarrow> bool" where
  "planets_len pl m \<longleftrightarrow>
     (case pl of NoPlanet \<Rightarrow> True
      | OnePlanet orb \<Rightarrow>
          length (sma orb) = m \<and> length (ecc orb) = m \<and> length (inc orb) = m \<and>
          length (aop orb) = m \<and> length (pan orb) = m \<and> length (tau orb) = m \<and>
          length (mtot orb) = m \<and> length (m1 orb) = m)"

definition cand_at :: "astro_params \<Rightarrow> planets \<Rightarrow> nat \<Rightarrow> candidate" where
  "cand_at p pl j =
     \<lparr>c_pm_ra = pm_ra p ! j, c_pm_dec = pm_dec p ! j, c_alpha_H0 = alpha_H0 p ! j,
      c_delta_H0 = delta_H0 p ! j, c_plx = plx p ! j,
      c_orbit = (case pl of
                   NoPlanet \<Rightarrow> None
                 | OnePlanet orb \<Rightarrow>
                     Some \<lparr>o_sma = sma orb ! j, o_ecc = ecc orb ! j, o_inc = inc orb ! j,
                           o_aop = aop orb ! j, o_pan = pan orb ! j, o_tau = tau orb ! j,
                           o_mtot = mtot orb ! j, o_m1 = m1 orb ! j\<rparr>)\<rparr>"

text \<open>
  The five-parameter model as a linear model: at epoch \<open>i\<close>, the scan
  projection of the reconstructed photocenter is the observation, and the
  row of the design matrix holds the coefficients of proper motion,
  offsets and parallax along the scan direction.
\<close>

definition scan_obs :: "hip_state \<Rightarrow> nat \<Rightarrow> real" where
  "scan_obs st i = alpha_abs_st st ! i * cos_phi st ! i + delta_abs st ! i * sin_phi st ! i"

definition design_row :: "hip_state \<Rightarrow> nat \<Rightarrow> real list" where
  "design_row st i =
     (let dt = epochs st ! i - 1991.25; cp = cos_phi st ! i; sp = sin_phi st ! i
      in [dt * cp, dt * sp, cp, sp,
          parallax_ra_factor (alpha0 st) (X st ! i) (Y st ! i) * cp +
          parallax_dec_factor (alpha0 st) (delta0 st) (X st ! i) (Y st ! i) (Z st ! i) * sp])"

definition cand_vec :: "candidate \<Rightarrow> real list" where
  "cand_vec c = [c_pm_ra c, c_pm_dec c, c_alpha_H0 c, c_delta_H0 c, c_plx c]"

section \<open>The batched evaluator implements the contract\<close>

lemma fill_rows_upt:
  "length d = n \<Longrightarrow> fill_rows f d [0..<n] = map f [0..<n]"
  unfolding fill_rows_def
  by (rule nth_equalityI) (simp_all add: nth_foldl_update [where g = f])

lemma mask_bad_plx_nth:
  "k < length l \<Longrightarrow>
     mask_bad_plx l pv ! k = (if k < length pv \<and> pv ! k \<le> 0 then NegInf else l ! k)"
  unfolding mask_bad_plx_def bad_plx_def
  by (simp add: nth_foldl_update [where g = "\<lambda>_. NegInf"])

lemma length_mask_bad_plx [simp]: "length (mask_bad_plx l pv) = length l"
  unfolding mask_bad_plx_def
  by (rule length_foldl_update [where g = "\<lambda>_. NegInf"])

lemma astro_len_of:
  "is_matrix samples m \<Longrightarrow> 5 \<le> length samples \<Longrightarrow> astro_len (astro_of samples) m"
proof -
  assume mat: "is_matrix samples m" and len: "5 \<le> length samples"
  have "length (samples ! k) = m" if "k < 5" for k
    using is_matrix_nth [OF mat] that len by simp
  then show ?thesis by (simp add: astro_len_def astro_of_def)
qed

lemma planets_len_of:
  "is_matrix samples m \<Longrightarrow> planets_of samples = Some pl \<Longrightarrow> planets_len pl m"
  by (auto simp: planets_len_def planets_of_def is_matrix_nth split: if_splits)

lemma model_alpha_nth:
  "astro_len p m \<Longrightarrow> j < m \<Longrightarrow>
     model_alpha st p i ! j =
       alpha_H0 p ! j + parallax_ra_factor (alpha0 st) (X st ! i) (Y st ! i) * plx p ! j +
       (epochs st ! i - 1991.25) * pm_ra p ! j"
  by (simp add: model_alpha_def astro_len_def)

lemma model_delta_nth:
  "astro_len p m \<Longrightarrow> j < m \<Longrightarrow>
     model_delta st p i ! j =
       delta_H0 p ! j +
       parallax_dec_factor (alpha0 st) (delta0 st) (X st ! i) (Y st ! i) (Z st ! i) * plx p ! j +
       (epochs st ! i - 1991.25) * pm_dec p ! j"
  by (simp add: model_delta_def astro_len_def)

lemma length_model [simp]:
  "astro_len p m \<Longrightarrow> length (model_alpha st p i) = m"
  "astro_len p m \<Longrightarrow> length (model_delta st p i) = m"
  by (simp_all add: model_alpha_def model_delta_def astro_len_def)

lemma orbit_offset_length:
  assumes "planets_len (OnePlanet orb) m"
  shows "length (fst (orbit_offset calc t pv orb)) = m"
    and "length (snd (orbit_offset calc t pv orb)) = m"
  using assms
  by (simp_all add: orbit_offset_def calc_orbit_vec_def planets_len_def Let_def)

lemma orbit_offset_nth:
  assumes "planets_len (OnePlanet orb) m" "length pv = m" "j < m"
  shows "fst (orbit_offset calc t pv orb) ! j =
           fst (calc t (sma orb ! j) (ecc orb ! j) (inc orb ! j) (aop orb ! j) (pan orb ! j)
                  (tau orb ! j) (pv ! j) (mtot orb ! j)) * (- m1 orb ! j / mtot orb ! j)"
    and "snd (orbit_offset calc t pv orb) ! j =
           fst (snd (calc t (sma orb ! j) (ecc orb ! j) (inc orb ! j) (aop orb ! j) (pan orb ! j)
                  (tau orb ! j) (pv ! j) (mtot orb ! j))) * (- m1 orb ! j / mtot orb ! j)"
  using assms
  by (simp_all add: orbit_offset_def calc_orbit_vec_def planets_len_def Let_def)

lemma candidate_of_cand_at:
  "planets_of samples = Some pl \<Longrightarrow> candidate_of samples j = cand_at (astro_of samples) pl j"
  by (auto simp: planets_of_def candidate_of_def cand_at_def astro_of_def split: if_splits)

lemma epoch_dist_nth:
  assumes "astro_len p m" "planets_len pl m" "j < m"
  shows "epoch_dist calc st p pl i ! j = cand_dist calc st (cand_at p pl j) i"
proof (cases pl)
  case NoPlanet
  with assms show ?thesis
    by (simp add: epoch_dist_def epoch_position_def cand_dist_def cand_position_def cand_at_def
        scan_residual_def model_alpha_nth model_delta_nth Let_def algebra_simps)
next
  case (OnePlanet orb)
  with assms have plx_len: "length (plx p) = m" by (simp add: astro_len_def)
  from OnePlanet assms show ?thesis
    by (simp add: epoch_dist_def epoch_position_def cand_dist_def cand_position_def cand_at_def
        scan_residual_def model_alpha_nth model_delta_nth orbit_offset_nth [OF _ plx_len]
        orbit_offset_length
        Let_def algebra_simps prod.case_eq_if)
qed

lemma chi2_terms_sum_nth:
  assumes "hip_wf st" "astro_len p m" "planets_len pl m" "j < m"
  shows "sum_list (chi2_terms (map (epoch_dist calc st p pl) [0..<length (epochs st)]) (eps st) m ! j) =
           cand_chi2 calc st (cand_at p pl j)"
proof -
  let ?n = "length (epochs st)"
  from assms(1) have "length (eps st) = ?n" by (simp add: hip_wf_def Let_def)
  then have "vdiv (map (\<lambda>i. epoch_dist calc st p pl i ! j) [0..<?n]) (eps st) =
               map (\<lambda>i. cand_dist calc st (cand_at p pl j) i / eps st ! i) [0..<?n]"
    using assms(2-4) by (simp add: vdiv_map_upt epoch_dist_nth)
  with assms(4) show ?thesis
    by (simp add: chi2_terms_def cand_chi2_def comp_def)
qed

lemma lnprob_batch_scalar:
  "epoch_ndim st = 0 \<Longrightarrow> lnprob_batch calc st p pl neg = Inl TypeError"
  by (simp add: lnprob_batch_def)

lemma lnprob_batch_Inr_ndim:
  "lnprob_batch calc st p pl neg = Inr v \<Longrightarrow> epoch_ndim st \<noteq> 0"
  by (cases "epoch_ndim st = 0") (simp_all add: lnprob_batch_scalar)

lemma lnprob_batch_empty:
  "epoch_ndim st \<noteq> 0 \<Longrightarrow> length (pm_ra p) = 0 \<Longrightarrow> lnprob_batch calc st p pl neg = Inl AxisError"
  by (simp add: lnprob_batch_def chi2_terms_def np_sum_axis1_def Let_def)

lemma lnprob_batch_Inr:
  assumes "epoch_ndim st \<noteq> 0" "length (pm_ra p) = m" "0 < m"
  shows "lnprob_batch calc st p pl neg =
           Inr (negate_if neg (mask_bad_plx (map (\<lambda>c. Fin (- 0.5 * c)) (map sum_list
             (chi2_terms (fill_rows (epoch_dist calc st p pl) (np_empty (length (epochs st)) m)
                [0..<length (epochs st)]) (eps st) m))) (plx p)))"
  using assms by (simp add: lnprob_batch_def np_sum_axis1_def chi2_terms_def Let_def)

lemma lnprob_batch_nth:
  assumes "hip_wf st" "epoch_ndim st \<noteq> 0" "astro_len p m" "planets_len pl m" "0 < m"
  shows "\<exists>v. lnprob_batch calc st p pl neg = Inr v \<and> length v = m \<and>
            (\<forall>j<m. v ! j = cand_lnprob calc st (cand_at p pl j) neg)"
proof -
  let ?n = "length (epochs st)"
  have fill: "fill_rows (epoch_dist calc st p pl) (np_empty ?n m) [0..<?n] =
                map (epoch_dist calc st p pl) [0..<?n]"
    by (simp add: fill_rows_upt np_empty_def)
  from assms(3) have lens: "length (pm_ra p) = m" "length (plx p) = m"
    by (simp_all add: astro_len_def)
  have sums: "\<And>j. j < m \<Longrightarrow> sum_list (chi2_terms (map (epoch_dist calc st p pl) [0..<?n]) (eps st) m ! j) =
                 cand_chi2 calc st (cand_at p pl j)"
    by (rule chi2_terms_sum_nth [OF assms(1,3,4)])
  show ?thesis
    using lnprob_batch_Inr [OF assms(2) lens(1) assms(5)] fill lens sums
    by (simp add: negate_if_def mask_bad_plx_nth cand_lnprob_def cand_at_def chi2_terms_def)
qed

lemma lnprob_batch_Inl:
  "lnprob_batch calc st p pl neg = Inl e \<Longrightarrow> e = AxisError \<or> e = TypeError"
  by (simp add: lnprob_batch_def np_sum_axis1_def Let_def split: if_splits)

lemma compute_lnprob_batch:
  "planets_of samples = Some pl \<Longrightarrow>
     compute_lnprob calc st samples neg =
       (case lnprob_batch calc st (astro_of samples) pl neg of
          Inl e \<Rightarrow> Inl e
        | Inr v \<Rightarrow> Inr (Some v))"
  by (auto simp: compute_lnprob_def planets_of_def split: if_splits)

lemma planets_of_Some:
  "length samples = 5 \<or> length samples = 13 \<Longrightarrow> \<exists>pl. planets_of samples = Some pl"
  by (auto simp: planets_of_def)

lemma length_candidates [simp]: "length (candidates samples) = length (samples ! 0)"
  by (simp add: candidates_def)

lemma nth_candidates [simp]:
  "j < length (samples ! 0) \<Longrightarrow> candidates samples ! j = candidate_of samples j"
  by (simp add: candidates_def)

lemma is_matrix_row0:
  "is_matrix samples m \<Longrightarrow> samples \<noteq> [] \<Longrightarrow> length (samples ! 0) = m"
  by (simp add: is_matrix_nth)

lemma compute_lnprob_nth:
  assumes "hip_wf st" "epoch_ndim st = 1" "is_matrix samples m"
    "length samples = 5 \<or> length samples = 13" "0 < m"
  shows "\<exists>v. compute_lnprob calc st samples neg = Inr (Some v) \<and> length v = m \<and>
            (\<forall>j<m. v ! j = cand_lnprob calc st (candidate_of samples j) neg)"
proof -
  obtain pl where pl: "planets_of samples = Some pl"
    using planets_of_Some [OF assms(4)] by blast
  have alen: "astro_len (astro_of samples) m"
    using astro_len_of [OF assms(3)] assms(4) by auto
  have plen: "planets_len pl m" by (rule planets_len_of [OF assms(3) pl])
  have nd: "epoch_ndim st \<noteq> 0" using assms(2) by simp
  obtain v where v: "lnprob_batch calc st (astro_of samples) pl neg = Inr v" "length v = m"
    "\<forall>j<m. v ! j = cand_lnprob calc st (cand_at (astro_of samples) pl j) neg"
    using lnprob_batch_nth [OF assms(1) nd alen plen assms(5)] by blast
  then show ?thesis
    using compute_lnprob_batch [OF pl] candidate_of_cand_at [OF pl] by auto
qed

text \<open>
  C1 (refinement): on a well-formed reconstructed state of one-dimensional
  per-epoch arrays and a rectangular, non-empty batch of 5 or 13 parameter rows, the batched evaluator returns, for every
  candidate column in order, exactly the log-probability the per-candidate
  contract \<open>cand_lnprob\<close> assigns to that column.
\<close>

theorem compute_lnprob_refines:
  assumes "hip_wf st" "epoch_ndim st = 1" "is_matrix samples m"
    "length samples = 5 \<or> length samples = 13" "0 < m"
  shows "compute_lnprob calc st samples neg =
           Inr (Some (map (\<lambda>c. cand_lnprob calc st c neg) (candidates samples)))"
proof -
  obtain v where v: "compute_lnprob calc st samples neg = Inr (Some v)" "length v = m"
    "\<forall>j<m. v ! j = cand_lnprob calc st (candidate_of samples j) neg"
    using compute_lnprob_nth [OF assms] by blast
  have "samples \<noteq> []" using assms(4) by auto
  then have m: "length (samples ! 0) = m" by (rule is_matrix_row0 [OF assms(3)])
  have "v = map (\<lambda>c. cand_lnprob calc st c neg) (candidates samples)"
    by (rule nth_equalityI) (simp_all add: v m)
  with v show ?thesis by simp
qed

text \<open>
  C2 (safety): a candidate whose parallax is zero or negative gets
  \<open>-inf\<close> (\<open>+inf\<close> when the negated value is requested), whatever its
  other parameters and whatever the state, as long as its per-epoch arrays
  are one-dimensional; the mask is applied after the
  chi-square, so it overrides it.
\<close>

theorem compute_lnprob_nonpositive_plx:
  assumes "epoch_ndim st = 1" "is_matrix samples m" "length samples = 5 \<or> length samples = 13"
    "j < m" "samples ! 4 ! j \<le> 0"
  shows "\<exists>v. compute_lnprob calc st samples neg = Inr (Some v) \<and>
            v ! j = (if neg then PosInf else NegInf)"
proof -
  obtain pl where pl: "planets_of samples = Some pl"
    using planets_of_Some [OF assms(3)] by blast
  have alen: "astro_len (astro_of samples) m"
    using astro_len_of [OF assms(2)] assms(3) by auto
  then have lens: "length (pm_ra (astro_of samples)) = m" "length (plx (astro_of samples)) = m"
    by (simp_all add: astro_len_def)
  have nd: "epoch_ndim st \<noteq> 0" using assms(1) by simp
  have "0 < m" using assms(4) by simp
  then show ?thesis
    using compute_lnprob_batch [OF pl] lnprob_batch_Inr [OF nd lens(1)] lens assms(4,5)
    by (simp add: negate_if_def mask_bad_plx_nth chi2_terms_def) (simp add: astro_of_def)
qed

text \<open>
  C3 (functional): \<open>compute_lnprob(samples, negative=True)\<close> is the entrywise
  negation of \<open>compute_lnprob(samples, negative=False)\<close>, on every input,
  including the error results and the infinite entries.
\<close>

theorem compute_lnprob_negative:
  "compute_lnprob calc st samples True =
     map_sum id (map_option (map uminus)) (compute_lnprob calc st samples False)"
  by (simp add: compute_lnprob_def lnprob_batch_def negate_if_def Let_def
      split: option.splits sum.splits)

text \<open>
  C6 (error): a parameter count other than 5 or 13 never yields a result:
  fewer than five rows raise \<open>IndexError\<close> (the rows are read before the
  count is checked), and any other count returns \<open>None\<close>.
\<close>

theorem compute_lnprob_usage_error:
  "(compute_lnprob calc st samples neg = Inl IndexError \<longleftrightarrow> length samples < 5) \<and>
   (compute_lnprob calc st samples neg = Inr None \<longleftrightarrow>
      5 \<le> length samples \<and> length samples \<noteq> 5 \<and> length samples \<noteq> 13)"
  by (auto simp: compute_lnprob_def planets_of_def dest: lnprob_batch_Inl split: sum.splits)

lemma set_mask_bad_plx:
  "x \<in> set (mask_bad_plx l pv) \<Longrightarrow> x = NegInf \<or> x \<in> set l"
  by (auto simp: in_set_conv_nth mask_bad_plx_nth split: if_splits)

lemma chi2_terms_nonneg: "xs \<in> set (chi2_terms d e n) \<Longrightarrow> 0 \<le> sum_list xs"
  by (auto simp: chi2_terms_def intro!: sum_list_nonneg)

text \<open>
  C7 (bounds): every log-probability the evaluator returns is at most 0
  (a chi-square is a sum of squares), and at least 0 when negated.
\<close>

theorem compute_lnprob_sign:
  assumes "compute_lnprob calc st samples neg = Inr (Some v)" "x \<in> set v"
  shows "if neg then Fin 0 \<le> x else x \<le> Fin 0"
proof -
  obtain pl where "planets_of samples = Some pl"
    and v: "lnprob_batch calc st (astro_of samples) pl neg = Inr v"
    using assms(1) by (auto simp: compute_lnprob_def split: if_splits option.splits sum.splits)
  from v have nd: "epoch_ndim st \<noteq> 0" by (rule lnprob_batch_Inr_ndim)
  with v have "length (pm_ra (astro_of samples)) \<noteq> 0"
    using lnprob_batch_empty by fastforce
  then obtain d where "v = negate_if neg (mask_bad_plx (map (\<lambda>c. Fin (- 0.5 * c))
                              (map sum_list (chi2_terms d (eps st) (length (pm_ra (astro_of samples))))))
                            (plx (astro_of samples)))"
    using v lnprob_batch_Inr [OF nd, of "astro_of samples" _ calc pl neg] by auto
  then obtain y where y: "y \<in> set (mask_bad_plx (map (\<lambda>c. Fin (- 0.5 * c))
                              (map sum_list (chi2_terms d (eps st) (length (pm_ra (astro_of samples))))))
                            (plx (astro_of samples)))"
    and x: "x = (if neg then - y else y)"
    using assms(2) by (auto simp: negate_if_def split: if_splits)
  from y have "y \<le> Fin 0"
    by (auto dest!: set_mask_bad_plx chi2_terms_nonneg)
  with x show ?thesis
    by (cases y) auto
qed

lemma cand_chi2_eq_0_iff:
  assumes "\<forall>i<length (epochs st). eps st ! i \<noteq> 0"
  shows "cand_chi2 calc st c = 0 \<longleftrightarrow> (\<forall>i<length (epochs st). cand_dist calc st c i = 0)"
proof -
  have "cand_chi2 calc st c = (\<Sum>i<length (epochs st). (cand_dist calc st c i / eps st ! i) ^ 2)"
    by (simp add: cand_chi2_def interv_sum_list_conv_sum_set_nat atLeast0LessThan)
  with assms show ?thesis
    by (auto simp: sum_nonneg_eq_0_iff)
qed

text \<open>
  C8 (functional): when every residual error \<open>eps\<close> is non-zero, a
  candidate scores log-probability exactly 0 if and only if its parallax is
  positive and its model position agrees with the reconstructed
  photocenter along the scan direction at every epoch.
\<close>

theorem compute_lnprob_zero_iff_fit:
  assumes "hip_wf st" "epoch_ndim st = 1" "is_matrix samples m"
    "length samples = 5 \<or> length samples = 13" "j < m"
    "\<forall>i<length (epochs st). eps st ! i \<noteq> 0"
  shows "\<exists>v. compute_lnprob calc st samples False = Inr (Some v) \<and>
            (v ! j = Fin 0 \<longleftrightarrow>
               0 < samples ! 4 ! j \<and>
               (\<forall>i<length (epochs st). cand_dist calc st (candidate_of samples j) i = 0))"
proof -
  obtain v where v: "compute_lnprob calc st samples False = Inr (Some v)"
    "v ! j = cand_lnprob calc st (candidate_of samples j) False"
    using compute_lnprob_nth [OF assms(1-4)] assms(5) by (metis gr_zeroI not_less_zero)
  have "c_plx (candidate_of samples j) = samples ! 4 ! j"
    by (simp add: candidate_of_def)
  with v cand_chi2_eq_0_iff [OF assms(6)] show ?thesis
    by (auto simp: cand_lnprob_def)
qed

lemma candidate_of_hcat:
  assumes "is_matrix a ma" "is_matrix b mb" "length a = length b"
    "length a = 5 \<or> length a = 13" "j < ma + mb"
  shows "candidate_of (hcat a b) j =
           (if j < ma then candidate_of a j else candidate_of b (j - ma))"
proof -
  have "hcat a b ! k ! j = (if j < ma then a ! k ! j else b ! k ! (j - ma))" if "k < length a" for k
    using that assms by (simp add: hcat_def nth_append is_matrix_nth)
  then show ?thesis
    using assms(3,4) by (auto simp: candidate_of_def hcat_def)
qed

text \<open>
  C9 (functional): candidates are scored independently: splitting a batch
  into two non-empty column blocks, scoring each, and concatenating gives
  the score of the whole batch.
\<close>

theorem compute_lnprob_hcat:
  assumes "hip_wf st" "epoch_ndim st = 1" "is_matrix a ma" "is_matrix b mb" "length a = length b"
    "length a = 5 \<or> length a = 13" "0 < ma" "0 < mb"
  shows "\<exists>va vb. compute_lnprob calc st a neg = Inr (Some va) \<and>
                compute_lnprob calc st b neg = Inr (Some vb) \<and>
                compute_lnprob calc st (hcat a b) neg = Inr (Some (va @ vb))"
proof -
  obtain va where va: "compute_lnprob calc st a neg = Inr (Some va)" "length va = ma"
    "\<forall>j<ma. va ! j = cand_lnprob calc st (candidate_of a j) neg"
    using compute_lnprob_nth [OF assms(1,2,3,6,7)] by blast
  have lb: "length b = 5 \<or> length b = 13" using assms(5,6) by simp
  obtain vb where vb: "compute_lnprob calc st b neg = Inr (Some vb)" "length vb = mb"
    "\<forall>j<mb. vb ! j = cand_lnprob calc st (candidate_of b j) neg"
    using compute_lnprob_nth [OF assms(1,2,4) lb assms(8)] by blast
  have lh: "length (hcat a b) = 5 \<or> length (hcat a b) = 13"
    using hcat_shape(2) [OF assms(3-5)] assms(6) by simp
  obtain v where v: "compute_lnprob calc st (hcat a b) neg = Inr (Some v)" "length v = ma + mb"
    "\<forall>j<ma + mb. v ! j = cand_lnprob calc st (candidate_of (hcat a b) j) neg"
    using compute_lnprob_nth [OF assms(1,2) hcat_shape(1) [OF assms(3-5)] lh add_pos_pos [OF assms(7,8)]]
    by blast
  have "v = va @ vb"
    by (rule nth_equalityI)
      (auto simp: v va vb nth_append candidate_of_hcat [OF assms(3-6)])
  with va vb v show ?thesis by blast
qed

lemma candidate_of_select:
  assumes "length samples = 5 \<or> length samples = 13" "k < length idx"
  shows "candidate_of (select_columns samples idx) k = candidate_of samples (idx ! k)"
  using assms by (auto simp: candidate_of_def select_columns_def)

text \<open>
  C20 (equivalence): scoring commutes with selecting candidate columns: the
  scores of \<open>samples[:, idx]\<close>, for any non-empty list of column indices
  (a permutation, a subset, with repeats), are the scores of \<open>samples\<close>
  at \<open>idx\<close>; so a batch may be split, reordered or recombined freely.
\<close>

theorem compute_lnprob_select_columns:
  assumes "hip_wf st" "epoch_ndim st = 1" "is_matrix samples m"
    "length samples = 5 \<or> length samples = 13" "idx \<noteq> []" "set idx \<subseteq> {..<m}"
  shows "\<exists>v. compute_lnprob calc st samples neg = Inr (Some v) \<and>
            compute_lnprob calc st (select_columns samples idx) neg = Inr (Some (map (\<lambda>i. v ! i) idx))"
proof -
  have "0 < m" using assms(5,6) by (cases idx) auto
  then obtain v where v: "compute_lnprob calc st samples neg = Inr (Some v)" "length v = m"
    "\<forall>j<m. v ! j = cand_lnprob calc st (candidate_of samples j) neg"
    using compute_lnprob_nth [OF assms(1-4)] by blast
  have l: "length (select_columns samples idx) = 5 \<or> length (select_columns samples idx) = 13"
    using assms(4) by (simp add: select_columns_shape(2))
  obtain w where w: "compute_lnprob calc st (select_columns samples idx) neg = Inr (Some w)"
    "length w = length idx"
    "\<forall>k<length idx. w ! k = cand_lnprob calc st (candidate_of (select_columns samples idx) k) neg"
    using compute_lnprob_nth [OF assms(1,2) select_columns_shape(1) l] assms(5) by blast
  have "w = map (\<lambda>i. v ! i) idx"
  proof (rule nth_equalityI)
    fix k assume k: "k < length w"
    then have "idx ! k < m" using assms(6) w(2) nth_mem by fastforce
    with k show "w ! k = map (\<lambda>i. v ! i) idx ! k"
      using w v candidate_of_select [OF assms(4)] by simp
  qed (simp add: w)
  with v w show ?thesis by blast
qed

text \<open>
  C12 (error): a batch of 5 or 13 rows with no candidate column (\<open>M = 0\<close>)
  does not yield an empty result on a state of one-dimensional arrays: the reduction \<open>np.sum(..., axis=1)\<close> of
  line 198 receives an empty list and raises \<open>AxisError\<close>.
\<close>

theorem compute_lnprob_empty_batch:
  assumes "epoch_ndim st = 1" "is_matrix samples 0" "length samples = 5 \<or> length samples = 13"
  shows "compute_lnprob calc st samples neg = Inl AxisError"
proof -
  obtain pl where pl: "planets_of samples = Some pl"
    using planets_of_Some [OF assms(3)] by blast
  have "astro_len (astro_of samples) 0"
    using astro_len_of [OF assms(2)] assms(3) by auto
  then have "length (pm_ra (astro_of samples)) = 0" by (simp add: astro_len_def)
  then show ?thesis
    using compute_lnprob_batch [OF pl] lnprob_batch_empty assms(1) by simp
qed

text \<open>The spec's residual without a companion, as the linear model of the five parameters.\<close>

lemma cand_dist_linear:
  assumes "c_orbit c = None"
  shows "cand_dist calc st c i = \<bar>scan_obs st i - sum_list (map2 (*) (design_row st i) (cand_vec c))\<bar>"
  using assms
  by (simp add: cand_dist_def cand_position_def scan_residual_def scan_obs_def design_row_def
      cand_vec_def Let_def algebra_simps)

text \<open>
  C21 (functional): without a companion, the row \<open>dist[i, :]\<close> the loop
  computes is linear in the five astrometric parameters of each column:
  entry \<open>j\<close> is the absolute difference between the scan projection of
  the reconstructed photocenter and the design row of epoch \<open>i\<close> applied
  to \<open>(pm_ra, pm_dec, alpha_H0, delta_H0, plx)\<close> of column \<open>j\<close> (the
  linear model of the Hipparcos five-parameter solution).
\<close>

theorem epoch_dist_linear:
  assumes "astro_len p m" "j < m"
  shows "epoch_dist calc st p NoPlanet i ! j =
           \<bar>scan_obs st i - sum_list (map2 (*) (design_row st i)
              [pm_ra p ! j, pm_dec p ! j, alpha_H0 p ! j, delta_H0 p ! j, plx p ! j])\<bar>"
proof -
  have "epoch_dist calc st p NoPlanet i ! j = cand_dist calc st (cand_at p NoPlanet j) i"
    by (rule epoch_dist_nth [OF assms(1) _ assms(2)]) (simp add: planets_len_def)
  also have "\<dots> = \<bar>scan_obs st i - sum_list (map2 (*) (design_row st i) (cand_vec (cand_at p NoPlanet j)))\<bar>"
    by (rule cand_dist_linear) (simp add: cand_at_def)
  finally show ?thesis by (simp add: cand_vec_def cand_at_def)
qed

section \<open>Facts used by the cross-component properties\<close>

text \<open>A companion of zero mass leaves a candidate's score as if it had no orbit.\<close>

lemma cand_lnprob_massless:
  assumes "c_orbit c = Some orb" "o_m1 orb = 0"
  shows "cand_lnprob calc st c neg = cand_lnprob calc st (c\<lparr>c_orbit := None\<rparr>) neg"
proof -
  have "cand_position calc st c i = cand_position calc st (c\<lparr>c_orbit := None\<rparr>) i" for i
    using assms by (simp add: cand_position_def Let_def split: prod.splits)
  then show ?thesis
    by (simp add: cand_lnprob_def cand_chi2_def cand_dist_def)
qed

text \<open>
  The catalog solution itself, as a candidate without orbit, differs from
  the reconstructed photocenter by the measured residual along the scan
  direction, when the scan direction is a unit vector.
\<close>

lemma catalog_candidate_dist:
  assumes "hip_wf' st" "i < length (epochs st)" "(cos_phi st ! i)\<^sup>2 + (sin_phi st ! i)\<^sup>2 = 1"
    "c = \<lparr>c_pm_ra = pm_ra0 st, c_pm_dec = pm_dec0 st, c_alpha_H0 = 0, c_delta_H0 = 0,
          c_plx = plx0 st, c_orbit = None\<rparr>"
  shows "cand_dist calc (reconstruct st) c i = \<bar>R st ! i\<bar>"
proof -
  let ?r = "R st ! i" and ?c = "cos_phi st ! i" and ?s = "sin_phi st ! i"
  have "cand_dist calc (reconstruct st) c i = \<bar>?r * ?c * ?c + ?r * ?s * ?s\<bar>"
    using assms(1,2,4)
    by (simp add: cand_dist_def cand_position_def scan_residual_def reconstruct_nth Let_def
        algebra_simps)
  also have "?r * ?c * ?c + ?r * ?s * ?s = ?r * (?c\<^sup>2 + ?s\<^sup>2)"
    by (simp add: algebra_simps power2_eq_square)
  finally show ?thesis using assms(3) by simp
qed

text \<open>Moving the model position by \<open>k\<close> times an offset moves the scan residual by at most that much.\<close>

lemma scan_residual_shift:
  fixes c s da dd k x y :: real
  assumes "da' = da + k * x" "dd' = dd + k * y"
  shows "\<bar>scan_residual c s da' dd' - scan_residual c s da dd\<bar> \<le>
           \<bar>k\<bar> * (sqrt (x\<^sup>2 + y\<^sup>2) * sqrt (c\<^sup>2 + s\<^sup>2))"
proof -
  have "\<bar>scan_residual c s da' dd' - scan_residual c s da dd\<bar> \<le>
      \<bar>(da + k * x) * c + (dd + k * y) * s - (da * c + dd * s)\<bar>"
    unfolding scan_residual_def assms by (rule abs_triangle_ineq3)
  also have "\<dots> = \<bar>k\<bar> * \<bar>x * c + y * s\<bar>"
    by (simp add: algebra_simps abs_mult [symmetric])
  also have "\<bar>x * c + y * s\<bar> \<le> sqrt ((x\<^sup>2 + y\<^sup>2) * (c\<^sup>2 + s\<^sup>2))"
    using cauchy_schwarz2 [of x c "- y" s] by (intro abs_le_sqrt) simp
  then have "\<bar>k\<bar> * \<bar>x * c + y * s\<bar> \<le> \<bar>k\<bar> * (sqrt (x\<^sup>2 + y\<^sup>2) * sqrt (c\<^sup>2 + s\<^sup>2))"
    by (simp add: real_sqrt_mult mult_left_mono)
  finally show ?thesis .
qed

text \<open>
  C29 (bounds): the orbit term of lines 175--189 moves the residual
  \<open>dist[i, j]\<close> of a candidate by at most \<open>|m1/mtot|\<close> times the length of
  the companion's offset from \<open>calc_orbit\<close> times the length of the scan
  vector: with unit scan vectors and \<open>0 \<le> m1 \<le> mtot\<close>, at most the
  companion's offset itself, whatever the orbit solver returns.
\<close>

theorem epoch_dist_orbit_bound:
  assumes "astro_len p m" "planets_len (OnePlanet orb) m" "j < m"
    "calc (epochs_mjd st ! i) (sma orb ! j) (ecc orb ! j) (inc orb ! j) (aop orb ! j)
       (pan orb ! j) (tau orb ! j) (plx p ! j) (mtot orb ! j) = (raoff, decoff, z)"
  shows "\<bar>epoch_dist calc st p (OnePlanet orb) i ! j - epoch_dist calc st p NoPlanet i ! j\<bar> \<le>
           \<bar>m1 orb ! j / mtot orb ! j\<bar> *
           (sqrt (raoff\<^sup>2 + decoff\<^sup>2) * sqrt ((cos_phi st ! i)\<^sup>2 + (sin_phi st ! i)\<^sup>2))"
proof -
  have w: "epoch_dist calc st p (OnePlanet orb) i ! j = cand_dist calc st (cand_at p (OnePlanet orb) j) i"
    by (rule epoch_dist_nth [OF assms(1-3)])
  have n: "epoch_dist calc st p NoPlanet i ! j = cand_dist calc st (cand_at p NoPlanet j) i"
    by (rule epoch_dist_nth [OF assms(1) _ assms(3)]) (simp add: planets_len_def)
  have "\<bar>cand_dist calc st (cand_at p (OnePlanet orb) j) i - cand_dist calc st (cand_at p NoPlanet j) i\<bar> \<le>
      \<bar>m1 orb ! j / mtot orb ! j\<bar> *
        (sqrt (raoff\<^sup>2 + decoff\<^sup>2) * sqrt ((cos_phi st ! i)\<^sup>2 + (sin_phi st ! i)\<^sup>2))"
    unfolding cand_dist_def cand_position_def cand_at_def Let_def planets.case option.case
      candidate.select_convs orbit_elems.select_convs assms(4) prod.case
    by (rule scan_residual_shift) (simp_all add: algebra_simps)
  then show ?thesis using w n by simp
qed

end
