(* ===== verification/DataSources.thy ===== *)
theory DataSources
  imports Reconstruct
begin

text \<open>
  The data sources of \<open>HipparcosLogProb.__init__\<close> (src/compute_chi2.py,
  lines 30--57) as effects on an explicit world: the class attribute
  \<open>Vizier.ROW_LIMIT\<close>, which line 35 sets for every later query, and the
  file system, a map from paths to the lines of a text file. The Vizier
  service (a function of the row limit and the HIP number) and Python's
  \<open>float()\<close> on one token are external and enter as the record
  \<open>services\<close>.

  \<open>iad_file_name\<close> is the path of line 56; \<open>loadtxt_rows\<close> is the text
  part of \<open>np.loadtxt(file_name, skiprows=1)\<close>: skip the first line,
  drop what follows \<open>#\<close> on each line, split at whitespace, skip lines
  left empty, and convert every token with \<open>float()\<close> (\<open>ValueError\<close>
  on failure); a missing file raises \<open>FileNotFoundError\<close>. The array
  numpy builds from the rows is \<open>np_loadtxt\<close> of the theory
  Observations. \<open>new_hip_logprob\<close> is the whole constructor with its
  effects, composing these with \<open>init_hip\<close>.
\<close>

record world =
  vizier_row_limit :: int
  files :: "string \<Rightarrow> string list option"

record services =
  vizier_query :: "int \<Rightarrow> string \<Rightarrow> vizier_row list list"
  parse_float :: "string \<Rightarrow> real option"

text \<open>Line 56: \<open>'/data/user/sblunt/HipIAD/H{}/HIP{}.d'.format(hip_num[0:3], hip_num)\<close>.\<close>

definition iad_file_name :: "string \<Rightarrow> string" where
  "iad_file_name hip = ''/data/user/sblunt/HipIAD/H'' @ take 3 hip @ ''/HIP'' @ hip @ ''.d''"

text \<open>Whitespace as \<open>str.split()\<close> knows it, and the split of a line into tokens.\<close>

definition is_ws :: "char \<Rightarrow> bool" where
  "is_ws c \<longleftrightarrow> c \<in> {CHR '' '', CHR 0x09, CHR 0x0A, CHR 0x0B, CHR 0x0C, CHR 0x0D}"

fun split_ws_acc :: "string \<Rightarrow> string \<Rightarrow> string list" where
  "split_ws_acc cur [] = (if cur = [] then [] else [cur])"
| "split_ws_acc cur (c # s) =
     (if is_ws c then (if cur = [] then split_ws_acc [] s else cur # split_ws_acc [] s)
      else split_ws_acc (cur @ [c]) s)"

definition split_ws :: "string \<Rightarrow> string list" where
  "split_ws s = split_ws_acc [] s"

definition strip_comment :: "string \<Rightarrow> string" where
  "strip_comment line = takeWhile (\<lambda>c. c \<noteq> CHR ''#'') line"

definition parse_row :: "(string \<Rightarrow> real option) \<Rightarrow> string list \<Rightarrow> py_error + real list" where
  "parse_row parse toks = (case those (map parse toks) of None \<Rightarrow> Inl ValueError | Some r \<Rightarrow> Inr r)"

fun parse_rows :: "(string \<Rightarrow> real option) \<Rightarrow> string list list \<Rightarrow> py_error + real list list" where
  "parse_rows parse [] = Inr []"
| "parse_rows parse (toks # tss) =
     (case parse_row parse toks of
        Inl e \<Rightarrow> Inl e
      | Inr r \<Rightarrow> (case parse_rows parse tss of Inl e \<Rightarrow> Inl e | Inr rs \<Rightarrow> Inr (r # rs)))"

definition loadtxt_rows :: "(string \<Rightarrow> real option) \<Rightarrow> string list \<Rightarrow> py_error + real list list" where
  "loadtxt_rows parse lines =
     parse_rows parse (filter (\<lambda>toks. toks \<noteq> []) (map (split_ws \<circ> strip_comment) (drop 1 lines)))"

definition read_iad :: "services \<Rightarrow> world \<Rightarrow> string \<Rightarrow> py_error + real list list" where
  "read_iad svc w hip =
     (case files w (iad_file_name hip) of
        None \<Rightarrow> Inl FileNotFoundError
      | Some lines \<Rightarrow> loadtxt_rows (parse_float svc) lines)"

text \<open>
  Lines 30--57 with their effects: \<open>Vizier.ROW_LIMIT = -1\<close> first, then the
  query of table I/311/hip2 and the read of row 0, then the IAD file; the
  rest of the constructor is \<open>init_hip\<close> on what was read.
\<close>

definition new_hip_logprob ::
  "services \<Rightarrow> externals \<Rightarrow> world \<Rightarrow> string \<Rightarrow> (py_error + hip_state) \<times> world" where
  "new_hip_logprob svc ext w hip =
     (let w' = w\<lparr>vizier_row_limit := -1\<rparr>;
          tables = vizier_query svc (vizier_row_limit w') hip
      in (case load_catalog hip tables of
            Inl e \<Rightarrow> Inl e
          | Inr _ \<Rightarrow>
              (case read_iad svc w' hip of
                 Inl e \<Rightarrow> Inl e
               | Inr rows \<Rightarrow> init_hip ext hip tables rows), w'))"

text \<open>
  The other direction, for the round trip: a row printed as its tokens
  separated by single spaces (the way a data file is written).
\<close>

fun join_ws :: "string list \<Rightarrow> string" where
  "join_ws [] = []"
| "join_ws [t] = t"
| "join_ws (t # ts) = t @ CHR '' '' # join_ws ts"

definition show_row :: "(real \<Rightarrow> string) \<Rightarrow> real list \<Rightarrow> string" where
  "show_row show r = join_ws (map show r)"

definition token_ok :: "string \<Rightarrow> bool" where
  "token_ok t \<longleftrightarrow> t \<noteq> [] \<and> list_all (\<lambda>c. \<not> is_ws c \<and> c \<noteq> CHR ''#'') t"

subsection \<open>Splitting and joining tokens\<close>

lemma split_ws_acc_token:
  "list_all (\<lambda>c. \<not> is_ws c) tok \<Longrightarrow> split_ws_acc cur (tok @ rest) = split_ws_acc (cur @ tok) rest"
  by (induction tok arbitrary: cur) simp_all

lemma is_ws_space [simp]: "is_ws (CHR '' '')"
  by (simp add: is_ws_def)

lemma split_ws_join_ws:
  "list_all token_ok ts \<Longrightarrow> split_ws (join_ws ts) = ts"
proof (induction ts rule: join_ws.induct)
  case 1
  then show ?case by (simp add: split_ws_def)
next
  case (2 t)
  then show ?case
    using split_ws_acc_token [of t "[]" "[]"] by (simp add: split_ws_def token_ok_def list_all_iff)
next
  case (3 t v vs)
  then have t: "t \<noteq> []" "list_all (\<lambda>c. \<not> is_ws c) t" by (simp_all add: token_ok_def list_all_iff)
  have "split_ws (join_ws (t # v # vs)) = split_ws_acc t (CHR '' '' # join_ws (v # vs))"
    using split_ws_acc_token [OF t(2), of "[]"] by (simp add: split_ws_def)
  also have "\<dots> = t # split_ws (join_ws (v # vs))"
    using t(1) by (simp add: split_ws_def)
  finally show ?case using 3 by simp
qed

lemma set_join_ws: "set (join_ws ts) \<subseteq> insert (CHR '' '') (\<Union>t \<in> set ts. set t)"
  by (induction ts rule: join_ws.induct) auto

lemma strip_comment_id: "CHR ''#'' \<notin> set line \<Longrightarrow> strip_comment line = line"
  by (auto simp: strip_comment_def takeWhile_eq_all_conv)

lemma parse_rows_map:
  "(\<And>toks. toks \<in> set tss \<Longrightarrow> parse_row parse toks = Inr (g toks)) \<Longrightarrow>
     parse_rows parse tss = Inr (map g tss)"
  by (induction tss) simp_all

lemma those_map_None: "those (map f xs) = None \<longleftrightarrow> (\<exists>x \<in> set xs. f x = None)"
  by (induction xs) (auto split: option.splits)

lemma parse_row_Inl:
  "parse_row parse toks = Inl e \<longleftrightarrow> e = ValueError \<and> (\<exists>t \<in> set toks. parse t = None)"
  by (cases "those (map parse toks)") (auto simp: parse_row_def those_map_None [symmetric])

lemma parse_rows_Inl:
  "parse_rows parse tss = Inl e \<longleftrightarrow> e = ValueError \<and> (\<exists>toks \<in> set tss. \<exists>t \<in> set toks. parse t = None)"
proof (induction tss)
  case Nil
  then show ?case by simp
next
  case (Cons toks tss)
  show ?case
  proof (cases "parse_row parse toks")
    case (Inl e')
    then have "e' = ValueError" "\<exists>t \<in> set toks. parse t = None"
      by (simp_all only: parse_row_Inl)
    with Inl show ?thesis by auto
  next
    case (Inr r)
    then have none: "\<not> (\<exists>t \<in> set toks. parse t = None)"
      by (metis parse_row_Inl sum.distinct(2))
    have "parse_rows parse (toks # tss) = Inl e \<longleftrightarrow> parse_rows parse tss = Inl e"
      using Inr by (cases "parse_rows parse tss") simp_all
    also have "\<dots> \<longleftrightarrow> e = ValueError \<and> (\<exists>toks' \<in> set tss. \<exists>t \<in> set toks'. parse t = None)"
      by (rule Cons.IH)
    finally show ?thesis using none by auto
  qed
qed

lemma those_map_inverse:
  "\<forall>x \<in> set r. parse (show x) = Some x \<Longrightarrow> those (map (parse \<circ> show) r) = Some r"
  by (induction r) simp_all

lemma parse_rows_show:
  "\<forall>x \<in> set (concat rows). parse (show x) = Some x \<Longrightarrow>
     parse_rows parse (map (map show) rows) = Inr rows"
  by (induction rows) (simp_all add: parse_row_def those_map_inverse)

lemma filter_nonempty_map:
  "(\<And>r. r \<in> set rows \<Longrightarrow> r \<noteq> [] \<and> f r = map show r) \<Longrightarrow>
     filter (\<lambda>toks. toks \<noteq> []) (map f rows) = map (map show) rows"
  by (induction rows) simp_all

text \<open>Writing rows with any header line and reading them back gives the rows.\<close>

lemma show_row_no_comment:
  assumes "list_all token_ok (map show r)"
  shows "CHR ''#'' \<notin> set (show_row show r)"
proof
  assume h: "CHR ''#'' \<in> set (show_row show r)"
  have "CHR ''#'' \<noteq> CHR '' ''" by simp
  with h have "CHR ''#'' \<in> (\<Union>a \<in> set r. set (show a))"
    using set_join_ws [of "map show r"] unfolding show_row_def by auto
  with assms show False by (auto simp: list_all_iff token_ok_def)
qed

lemma loadtxt_rows_show:
  assumes "\<forall>x \<in> set (concat rows). parse (show x) = Some x \<and> token_ok (show x)"
    "\<forall>r \<in> set rows. r \<noteq> []"
  shows "loadtxt_rows parse (header # map (show_row show) rows) = Inr rows"
proof -
  have line: "r \<noteq> [] \<and> (split_ws \<circ> strip_comment \<circ> show_row show) r = map show r"
    if r: "r \<in> set rows" for r
  proof -
    have ok: "list_all token_ok (map show r)"
      using assms(1) r by (simp add: list_all_iff)
    have "strip_comment (show_row show r) = show_row show r"
      by (rule strip_comment_id [OF show_row_no_comment [OF ok]])
    then show ?thesis
      using split_ws_join_ws [OF ok] assms(2) r by (simp add: show_row_def)
  qed
  have filt: "filter (\<lambda>toks. toks \<noteq> []) (map (split_ws \<circ> strip_comment \<circ> show_row show) rows) =
          map (map show) rows"
    by (rule filter_nonempty_map) (rule line)
  have pr: "parse_rows parse (map (map show) rows) = Inr rows"
    using assms(1) by (intro parse_rows_show) blast
  have d: "drop 1 (header # map (show_row show) rows) = map (show_row show) rows" by simp
  show ?thesis
    unfolding loadtxt_rows_def d map_map filt pr ..
qed

lemma new_hip_logprob_world: "snd (new_hip_logprob svc ext w hip) = w\<lparr>vizier_row_limit := -1\<rparr>"
  by (simp add: new_hip_logprob_def Let_def)

lemma new_hip_logprob_Inr:
  "fst (new_hip_logprob svc ext w hip) = Inr st \<Longrightarrow>
     \<exists>rows. init_hip ext hip (vizier_query svc (-1) hip) rows = Inr st"
  by (auto simp: new_hip_logprob_def Let_def split: sum.splits)

lemma new_hip_logprob_hip_wf:
  assumes "fst (new_hip_logprob svc ext w hip) = Inr st"
  shows "hip_wf st"
proof -
  obtain rows where "init_hip ext hip (vizier_query svc (-1) hip) rows = Inr st"
    using new_hip_logprob_Inr [OF assms] by blast
  then obtain st0 where "st = reconstruct st0" "hip_wf' st0"
    using init_hip_state by metis
  then show ?thesis using hip_wf_reconstruct by simp
qed

text \<open>The constructor reads no file of the world but the star's IAD file.\<close>

lemma new_hip_logprob_frame:
  "files w (iad_file_name hip) = files w' (iad_file_name hip) \<Longrightarrow>
     fst (new_hip_logprob svc ext w hip) = fst (new_hip_logprob svc ext w' hip)"
  by (simp add: new_hip_logprob_def Let_def read_iad_def cong: sum.case_cong)

subsection \<open>Properties of the data sources\<close>

text \<open>
  C22 (functional): the IAD path of line 56 determines the HIP number:
  distinct stars read distinct files (also when the number is shorter than
  the three characters \<open>hip_num[0:3]\<close> takes), and the default star reads
  \<open>H027/HIP027321.d\<close>.
\<close>

theorem iad_file_name_inj:
  "(iad_file_name h1 = iad_file_name h2 \<longleftrightarrow> h1 = h2) \<and>
   iad_file_name ''027321'' = ''/data/user/sblunt/HipIAD/H027/HIP027321.d''"
proof -
  have "h1 = h2" if eq: "iad_file_name h1 = iad_file_name h2"
  proof -
    from eq have e: "take 3 h1 @ ''/HIP'' @ h1 @ ''.d'' = take 3 h2 @ ''/HIP'' @ h2 @ ''.d''"
      by (simp add: iad_file_name_def)
    have "length (take 3 h1 @ ''/HIP'' @ h1 @ ''.d'') = length (take 3 h2 @ ''/HIP'' @ h2 @ ''.d'')"
      using e by (rule arg_cong)
    then have "min (length h1) 3 + length h1 = min (length h2) 3 + length h2" by simp
    then have "length (take 3 h1) = length (take 3 h2)" by (simp add: min_def split: if_splits)
    with e have "h1 @ ''.d'' = h2 @ ''.d''" by (simp add: append_eq_append_conv)
    then show ?thesis by simp
  qed
  then show ?thesis by (auto simp: iad_file_name_def)
qed

text \<open>
  C23 (safety): the constructor's only effect on the world is
  \<open>Vizier.ROW_LIMIT = -1\<close>, made before anything can fail, so the class
  attribute is \<open>-1\<close> after every construction, failed ones included; and
  since it is set before the query, the outcome does not depend on the row
  limit any earlier code left.
\<close>

theorem new_hip_logprob_effects:
  "snd (new_hip_logprob svc ext w hip) = w\<lparr>vizier_row_limit := -1\<rparr> \<and>
   fst (new_hip_logprob svc ext (w\<lparr>vizier_row_limit := k\<rparr>) hip) = fst (new_hip_logprob svc ext w hip)"
  by (simp add: new_hip_logprob_def read_iad_def Let_def)

text \<open>
  C24 (error): a missing IAD file raises \<open>FileNotFoundError\<close>, but only
  when the catalog query gave a row: the catalog is read first, and a query
  without a row raises \<open>IndexError\<close> before the file is opened.
\<close>

theorem new_hip_logprob_missing_file:
  assumes "files w (iad_file_name hip) = None"
  shows "fst (new_hip_logprob svc ext w hip) =
           Inl (case first_row (vizier_query svc (-1) hip) of Inl e \<Rightarrow> e | Inr _ \<Rightarrow> FileNotFoundError)"
  using assms
  by (simp add: new_hip_logprob_def load_catalog_def read_iad_def split: sum.splits)

text \<open>
  C25 (roundtrip): a file written as a header line followed by the rows,
  each as its values printed with a \<open>float()\<close>-compatible printer and
  separated by spaces, is read back as exactly those rows: the whole
  constructor with its effects builds the object \<open>init_hip\<close> builds from
  the catalog answer and the rows.
\<close>

theorem new_hip_logprob_file_roundtrip:
  assumes "files w (iad_file_name hip) = Some (header # map (show_row show) rows)"
    "\<forall>x \<in> set (concat rows). parse_float svc (show x) = Some x \<and> token_ok (show x)"
    "\<forall>r \<in> set rows. r \<noteq> []"
  shows "fst (new_hip_logprob svc ext w hip) = init_hip ext hip (vizier_query svc (-1) hip) rows"
proof -
  have "read_iad svc (w\<lparr>vizier_row_limit := -1\<rparr>) hip = Inr rows"
    using assms(1) loadtxt_rows_show [OF assms(2,3)] by (simp add: read_iad_def)
  then show ?thesis
    by (simp add: new_hip_logprob_def init_hip_def Let_def split: sum.splits)
qed

text \<open>
  C26 (error): only line 0 is skipped as a header. A token that
  \<open>float()\<close> rejects on any later line, outside a \<open>#\<close> comment, makes
  the load raise \<open>ValueError\<close>; a second, uncommented header line does.
\<close>

theorem loadtxt_rows_bad_token:
  assumes "l \<in> set (drop 1 lines)" "t \<in> set (split_ws (strip_comment l))" "parse t = None"
  shows "loadtxt_rows parse lines = Inl ValueError"
proof -
  let ?toks = "split_ws (strip_comment l)"
  have "?toks \<in> set (filter (\<lambda>toks. toks \<noteq> []) (map (split_ws \<circ> strip_comment) (drop 1 lines)))"
    using assms(1,2) by auto
  then have "\<exists>toks \<in> set (filter (\<lambda>toks. toks \<noteq> []) (map (split_ws \<circ> strip_comment) (drop 1 lines))).
               \<exists>t \<in> set toks. parse t = None"
    using assms(2,3) by blast
  then show ?thesis by (simp add: loadtxt_rows_def parse_rows_Inl)
qed

end
