(* ===== verification/Driver.thy ===== *)
theory Driver
  imports Likelihood DataSources "HOL-Library.Multiset"
begin

text \<open>
  The driver script, the \<open>__main__\<close> block of src/compute_chi2.py (lines
  211--300). It constructs the object for HIP 027321, reads the chains of a
  radial-velocity fit from the world's files, subsamples \<open>10^5\<close> of their
  rows (\<open>df_sample\<close>, which raises when there are fewer), converts them to
  the orbit basis (the external \<open>compute_sep\<close>, giving the columns of the
  record \<open>posterior\<close>), draws the four
  astrometric parameters per orbit from normal distributions, assembles the
  13-row \<open>samples\<close> array, scores it with \<open>compute_lnprob\<close>, selects the
  1000 best-scoring orbits with \<open>argsort()[-1000:]\<close>, and plots five
  parameters of the posterior against those of the best orbits.

  The random generator \<open>np.random.normal(loc, scale, size)\<close> is a
  parameter \<open>normal\<close> of type \<open>'r normal_gen\<close>, threading its state of
  type \<open>'r\<close> through the four draws; the subsample draws from the same
  state first. numpy's \<open>argsort\<close> (quicksort, which
  does not fix the order of equal keys) is a parameter \<open>argsort\<close>; its
  contract is \<open>is_argsort\<close>, a permutation of the indices that sorts the
  keys, and \<open>argsort_stable\<close> is one implementation of it. The figure is
  modelled as its data: for each panel, the quantity on its axis label, the
  histogrammed row of \<open>samples\<close> and its entries at the best indices.
\<close>

type_synonym 'r normal_gen = "real \<Rightarrow> real \<Rightarrow> nat \<Rightarrow> 'r \<Rightarrow> real list \<times> 'r"

text \<open>The columns of \<open>df_orb\<close> the driver reads (lines 228--248).\<close>

record posterior =
  df_m_st :: "real list"
  df_mp :: "real list"
  df_plx :: "real list"
  df_sma :: "real list"
  df_ecc :: "real list"
  df_inc_rad :: "real list"
  df_omega_pl_rad :: "real list"
  df_lan_rad :: "real list"
  df_tau_58849 :: "real list"

record draws =
  pm_ra_samples :: "real list"
  pm_dec_samples :: "real list"
  alpha_H0_samples :: "real list"
  dec_H0_samples :: "real list"

text \<open>Lines 236--239: four draws, in this order, from one generator.\<close>

definition driver_draws :: "'r normal_gen \<Rightarrow> 'r \<Rightarrow> 'a catalog_scheme \<Rightarrow> nat \<Rightarrow> draws \<times> 'r" where
  "driver_draws normal g cat n_samples =
     (case normal (pm_ra0 cat) (pm_ra0_err cat) n_samples g of (pm_ra_s, g1) \<Rightarrow>
      case normal (pm_dec0 cat) (pm_dec0_err cat) n_samples g1 of (pm_dec_s, g2) \<Rightarrow>
      case normal 0 0.1 n_samples g2 of (alpha_s, g3) \<Rightarrow>
      case normal 0 0.1 n_samples g3 of (dec_s, g4) \<Rightarrow>
        (\<lparr>pm_ra_samples = pm_ra_s, pm_dec_samples = pm_dec_s,
          alpha_H0_samples = alpha_s, dec_H0_samples = dec_s\<rparr>, g4))"

text \<open>Lines 240--248: \<open>mtot = m_st + mp\<close> and the 13 rows of \<open>samples\<close>.\<close>

definition driver_samples :: "draws \<Rightarrow> posterior \<Rightarrow> real list list" where
  "driver_samples d post =
     [pm_ra_samples d, pm_dec_samples d, alpha_H0_samples d, dec_H0_samples d,
      df_plx post, df_sma post, df_ecc post, df_inc_rad post, df_omega_pl_rad post,
      df_lan_rad post, df_tau_58849 post, vadd (df_m_st post) (df_mp post), df_mp post]"

text \<open>
  Line 255: \<open>xs[-k:]\<close>, the last \<open>k\<close> entries (all of them when there are
  fewer), of the indices \<open>argsort\<close> returns.
\<close>

definition take_last :: "nat \<Rightarrow> 'a list \<Rightarrow> 'a list" where
  "take_last k xs = drop (length xs - k) xs"

definition best_indices :: "(fval list \<Rightarrow> nat list) \<Rightarrow> fval list \<Rightarrow> nat list" where
  "best_indices argsort logprobs = take_last 1000 (argsort logprobs)"

text \<open>
  The contract of \<open>ndarray.argsort\<close>: the result lists every index of the
  keys once, in an order in which the keys do not decrease.
\<close>

definition is_argsort :: "'a::linorder list \<Rightarrow> nat list \<Rightarrow> bool" where
  "is_argsort keys idx \<longleftrightarrow> mset idx = mset [0..<length keys] \<and> sorted (map (\<lambda>i. keys ! i) idx)"

definition argsort_stable :: "'a::linorder list \<Rightarrow> nat list" where
  "argsort_stable keys = sort_key (\<lambda>i. keys ! i) [0..<length keys]"

text \<open>
  The parameters of a row of \<open>samples\<close>, in the order of the docstring of
  \<open>compute_lnprob\<close> (lines 104--122), in which it reads them (lines 134--150).
\<close>

datatype param = PM_RA | PM_Dec | Alpha_H0 | Delta_H0 | Plx | Sma | Ecc | Inc | Aop | Pan | Tau
  | Mtot | M_pl


text \<open>
  Lines 257--298: the five panels, as the row of \<open>samples\<close> each plots and
  the parameter its axis label names (semimajor axis, parallax \<open>pi\<close>,
  eccentricity, \<open>mu_alpha\<close>, \<open>alpha_H0\<close>); each panel shows the whole row
  and the row at the best indices (\<open>samples[k][best_orbit_indices]\<close>).
\<close>

definition driver_panels :: "(nat \<times> param) list" where
  "driver_panels = [(5, Sma), (4, Plx), (6, Ecc), (0, PM_RA), (3, Alpha_H0)]"

definition plot_data :: "real list list \<Rightarrow> nat list \<Rightarrow> (param \<times> real list \<times> real list) list" where
  "plot_data samples best =
     map (\<lambda>(k, label). (label, samples ! k, map (\<lambda>i. samples ! k ! i) best)) driver_panels"

text \<open>
  Lines 216--231: the posterior. \<open>pd.read_csv\<close> reads the chains file of
  the world (\<open>FileNotFoundError\<close> when it is missing); parsing the CSV is
  the external \<open>parse_csv\<close>, giving the table's rows. \<open>df.sample(n)\<close>
  draws without replacement: pandas raises \<open>ValueError\<close> when the table
  has fewer than \<open>n\<close> rows, and otherwise takes the rows at the positions
  \<open>choice(N, n, replace=False)\<close> returns, drawn from numpy's global
  generator, the one \<open>np.random.normal\<close> uses next. The choice is the
  external \<open>sample_choice\<close>, threading the generator's state, with the
  contract \<open>choice_ok\<close>: \<open>n\<close> distinct positions of the table.
  \<open>compute_sep\<close>, the change to the orbit basis (an orbitize routine
  outside src/), is the external \<open>compute_sep\<close> from the rows to the
  columns the driver reads. It is given the stellar mass, the parallax and
  their errors (line 230), which suggests that it draws from numpy's
  global generator; it therefore takes the generator's state and returns
  the state it leaves, which the normal draws then start from.
\<close>

definition chains_path :: string where
  "chains_path = ''/data/user/lrosenth/legacy/run_final/'' @ ''120066'' @ ''/chains.csv.tar.bz2''"

record ('row, 'r) driver_libs =
  parse_csv :: "string list \<Rightarrow> 'row list"
  sample_choice :: "nat \<Rightarrow> nat \<Rightarrow> 'r \<Rightarrow> nat list \<times> 'r"
  compute_sep :: "'row list \<Rightarrow> 'r \<Rightarrow> posterior \<times> 'r"

definition choice_ok :: "nat \<Rightarrow> nat \<Rightarrow> nat list \<Rightarrow> bool" where
  "choice_ok N k locs \<longleftrightarrow> length locs = k \<and> distinct locs \<and> list_all (\<lambda>i. i < N) locs"

definition read_chains :: "('row, 'r) driver_libs \<Rightarrow> world \<Rightarrow> py_error + 'row list" where
  "read_chains libs w =
     (case files w chains_path of None \<Rightarrow> Inl FileNotFoundError | Some lines \<Rightarrow> Inr (parse_csv libs lines))"

definition df_sample ::
  "(nat \<Rightarrow> nat \<Rightarrow> 'r \<Rightarrow> nat list \<times> 'r) \<Rightarrow> 'row list \<Rightarrow> nat \<Rightarrow> 'r \<Rightarrow> py_error + 'row list \<times> 'r" where
  "df_sample rchoice df n g =
     (if length df < n then Inl ValueError
      else case rchoice (length df) n g of (locs, g') \<Rightarrow> Inr (map (\<lambda>i. df ! i) locs, g'))"

text \<open>
  Lines 233--300: from the posterior to the figure. \<open>compute_lnprob\<close>
  returning \<open>None\<close> would make \<open>logprobs.argsort()\<close> raise
  \<open>AttributeError\<close>; the figure saved by \<open>plt.savefig\<close> (line 300) is its
  path and its data.
\<close>

definition driver_score ::
  "orbit_model \<Rightarrow> hip_state \<Rightarrow> 'r normal_gen \<Rightarrow> 'r \<Rightarrow> posterior \<Rightarrow> (fval list \<Rightarrow> nat list) \<Rightarrow>
   py_error + nat list \<times> string \<times> (param \<times> real list \<times> real list) list" where
  "driver_score calc planet_pi normal g post argsort =
     (let n_samples = length (df_mp post);
          samples = driver_samples (fst (driver_draws normal g planet_pi n_samples)) post
      in case compute_lnprob calc planet_pi samples False of
           Inl e \<Rightarrow> Inl e
         | Inr None \<Rightarrow> Inl AttributeError
         | Inr (Some logprobs) \<Rightarrow>
             (let best = best_indices argsort logprobs
              in Inr (best, ''planetpi_test.png'', plot_data samples best)))"

text \<open>
  The whole script, with its effects on the world: the construction of
  line 214 (\<open>new_hip_logprob\<close>, which sets \<open>Vizier.ROW_LIMIT\<close> and reads
  the IAD file), the posterior of \<open>n_to_sample = int(1e5)\<close> orbits, and the
  scoring and plotting, in this order, one generator threaded from the
  subsample to the draws.
\<close>

definition driver_run ::
  "orbit_model \<Rightarrow> services \<Rightarrow> externals \<Rightarrow> ('row, 'r) driver_libs \<Rightarrow> world \<Rightarrow> 'r normal_gen \<Rightarrow>
   'r \<Rightarrow> (fval list \<Rightarrow> nat list) \<Rightarrow>
   (py_error + nat list \<times> string \<times> (param \<times> real list \<times> real list) list) \<times> world" where
  "driver_run calc svc ext libs w normal g argsort =
     (case new_hip_logprob svc ext w ''027321'' of
        (Inl e, w') \<Rightarrow> (Inl e, w')
      | (Inr planet_pi, w') \<Rightarrow>
          (case read_chains libs w' of
             Inl e \<Rightarrow> (Inl e, w')
           | Inr df_rv \<Rightarrow>
               (case df_sample (sample_choice libs) df_rv 100000 g of
                  Inl e \<Rightarrow> (Inl e, w')
                | Inr (df_rv_subsamp, g1) \<Rightarrow>
                    (case compute_sep libs df_rv_subsamp g1 of
                       (df_orb, g2) \<Rightarrow> (driver_score calc planet_pi normal g2 df_orb argsort, w')))))"

text \<open>
  The spec's view of the batch the driver scores: orbit \<open>j\<close> of the
  posterior, with its drawn proper motion and offsets; the secondary mass is
  the planet's and the total mass the sum of star and planet.
\<close>

definition posterior_len :: "posterior \<Rightarrow> nat \<Rightarrow> bool" where
  "posterior_len post n \<longleftrightarrow>
     list_all (\<lambda>c. length c = n)
       [df_m_st post, df_mp post, df_plx post, df_sma post, df_ecc post, df_inc_rad post,
        df_omega_pl_rad post, df_lan_rad post, df_tau_58849 post]"

definition draws_len :: "draws \<Rightarrow> nat \<Rightarrow> bool" where
  "draws_len d n \<longleftrightarrow>
     list_all (\<lambda>c. length c = n)
       [pm_ra_samples d, pm_dec_samples d, alpha_H0_samples d, dec_H0_samples d]"

definition posterior_candidate :: "draws \<Rightarrow> posterior \<Rightarrow> nat \<Rightarrow> candidate" where
  "posterior_candidate d post j =
     \<lparr>c_pm_ra = pm_ra_samples d ! j, c_pm_dec = pm_dec_samples d ! j,
      c_alpha_H0 = alpha_H0_samples d ! j, c_delta_H0 = dec_H0_samples d ! j,
      c_plx = df_plx post ! j,
      c_orbit = Some \<lparr>o_sma = df_sma post ! j, o_ecc = df_ecc post ! j, o_inc = df_inc_rad post ! j,
                      o_aop = df_omega_pl_rad post ! j, o_pan = df_lan_rad post ! j,
                      o_tau = df_tau_58849 post ! j, o_mtot = df_m_st post ! j + df_mp post ! j,
                      o_m1 = df_mp post ! j\<rparr>\<rparr>"


subsection \<open>The argsort contract and the selection of the best orbits\<close>

lemma argsort_stable_is_argsort: "is_argsort keys (argsort_stable keys)"
  by (simp add: is_argsort_def argsort_stable_def sorted_sort_key)

lemma is_argsort_perm:
  assumes "is_argsort keys idx"
  shows "length idx = length keys" "set idx = {..<length keys}" "distinct idx"
proof -
  have m: "mset idx = mset [0..<length keys]" using assms by (simp add: is_argsort_def)
  show l: "length idx = length keys" using mset_eq_length [OF m] by simp
  show s: "set idx = {..<length keys}" using mset_eq_setD [OF m] by (simp add: lessThan_atLeast0)
  show "distinct idx" by (rule card_distinct) (simp add: l s)
qed

lemma length_take_last [simp]: "length (take_last k xs) = min k (length xs)"
  by (simp add: take_last_def)

lemma set_take_last: "set (take_last k xs) \<subseteq> set xs"
  by (simp add: take_last_def set_drop_subset)

text \<open>In a list sorted by a key, every entry before a suffix has a key at most those in it.\<close>

lemma sorted_prefix_le_suffix:
  assumes "sorted (map f xs)" "y \<in> set (take p xs)" "x \<in> set (drop p xs)"
  shows "f y \<le> f x"
proof -
  have "sorted (map f (take p xs) @ map f (drop p xs))"
    using assms(1) by (simp flip: map_append)
  then show ?thesis
    using assms(2,3) by (auto simp: sorted_append)
qed

subsection \<open>The batch the driver assembles\<close>

lemma driver_draws_len:
  assumes "\<forall>mu sd k g'. length (fst (normal mu sd k g')) = k"
  shows "draws_len (fst (driver_draws normal g cat n)) n"
  using assms by (simp add: driver_draws_def draws_len_def prod.case_eq_if)

lemma driver_samples_matrix:
  assumes "draws_len d n" "posterior_len post n"
  shows "is_matrix (driver_samples d post) n" "length (driver_samples d post) = 13"
  using assms by (simp_all add: driver_samples_def draws_len_def posterior_len_def is_matrix_def)

lemma candidate_of_driver:
  assumes "posterior_len post n" "j < n"
  shows "candidate_of (driver_samples d post) j = posterior_candidate d post j"
  using assms
  by (simp add: candidate_of_def driver_samples_def posterior_candidate_def posterior_len_def)

lemma driver_lnprob_nth:
  assumes "hip_wf st" "epoch_ndim st = 1" "draws_len d n" "posterior_len post n" "0 < n"
  shows "\<exists>v. compute_lnprob calc st (driver_samples d post) False = Inr (Some v) \<and> length v = n \<and>
           (\<forall>j<n. v ! j = cand_lnprob calc st (posterior_candidate d post j) False)"
proof -
  obtain v where v: "compute_lnprob calc st (driver_samples d post) False = Inr (Some v)"
    "length v = n" "\<forall>j<n. v ! j = cand_lnprob calc st (candidate_of (driver_samples d post) j) False"
    using compute_lnprob_nth [OF assms(1,2) driver_samples_matrix(1) [OF assms(3,4)] _ assms(5)]
      driver_samples_matrix(2) [OF assms(3,4)] by fastforce
  then show ?thesis using candidate_of_driver [OF assms(4)] by auto
qed

text \<open>An index outside the last \<open>k\<close> of an argsort scores at most as well as one inside.\<close>

lemma take_last_argsort_le:
  assumes "is_argsort keys idx" "i \<in> set (take_last k idx)" "j < length keys"
    "j \<notin> set (take_last k idx)"
  shows "keys ! j \<le> keys ! i"
proof -
  let ?p = "length idx - k"
  note perm = is_argsort_perm [OF assms(1)]
  have "j \<in> set idx" using perm(2) assms(3) by simp
  moreover have "set idx = set (take ?p idx) \<union> set (drop ?p idx)"
    by (metis append_take_drop_id set_append)
  ultimately have "j \<in> set (take ?p idx)"
    using assms(4) by (auto simp: take_last_def)
  moreover have "i \<in> set (drop ?p idx)"
    using assms(2) by (simp add: take_last_def)
  moreover have "sorted (map (\<lambda>i. keys ! i) idx)"
    using assms(1) by (simp add: is_argsort_def)
  ultimately show ?thesis
    by (intro sorted_prefix_le_suffix)
qed

text \<open>A list of at most \<open>k\<close> entries cannot hold \<open>k\<close> members of a set and one more.\<close>

lemma card_insert_le_length:
  assumes "insert i P \<subseteq> set xs" "i \<notin> P" "k \<le> card P" "length xs \<le> k"
  shows False
proof -
  have "P \<subseteq> set xs" using assms(1) by simp
  then have "finite P" by (rule finite_subset) simp
  then have "card (insert i P) = Suc (card P)" using assms(2) by simp
  moreover have "card (insert i P) \<le> length xs"
    using card_mono [OF _ assms(1)] card_length [of xs] by simp
  ultimately show False using assms(3,4) by simp
qed

lemma fval_le_NegInf: "x \<le> NegInf \<longleftrightarrow> x = NegInf"
  by (cases x) simp_all

lemma driver_score_reaches:
  assumes "hip_wf st" "epoch_ndim st = 1" "\<forall>mu sd k g'. length (fst (normal mu sd k g')) = k"
    "posterior_len post n" "0 < n" "\<forall>keys. is_argsort keys (argsort keys)"
  shows "\<exists>best panels.
           driver_score calc st normal g post argsort = Inr (best, ''planetpi_test.png'', panels) \<and>
           length best = min 1000 n \<and> set best \<subseteq> {..<n} \<and> length panels = 5"
proof -
  have n: "length (df_mp post) = n" using assms(4) by (simp add: posterior_len_def)
  let ?d = "fst (driver_draws normal g st n)"
  have dl: "draws_len ?d n" by (rule driver_draws_len [OF assms(3)])
  obtain v where v: "compute_lnprob calc st (driver_samples ?d post) False = Inr (Some v)" "length v = n"
    using driver_lnprob_nth [OF assms(1,2) dl assms(4,5)] by blast
  note perm = is_argsort_perm [OF spec [OF assms(6), of v]]
  have "set (best_indices argsort v) \<subseteq> {..<n}"
    using set_take_last perm(2) v(2) by (fastforce simp: best_indices_def)
  then show ?thesis
    using v n perm(1)
    by (simp add: driver_score_def best_indices_def plot_data_def driver_panels_def Let_def)
qed

lemma df_sample_Inr:
  "n \<le> length df \<Longrightarrow>
     df_sample rchoice df n g =
       Inr (map (\<lambda>i. df ! i) (fst (rchoice (length df) n g)), snd (rchoice (length df) n g))"
  by (simp add: df_sample_def split: prod.split)

lemma new_hip_logprob_run:
  "fst (new_hip_logprob svc ext w hip) = Inr st \<Longrightarrow>
     new_hip_logprob svc ext w hip = (Inr st, w\<lparr>vizier_row_limit := -1\<rparr>)"
  using new_hip_logprob_world [of svc ext w hip] by (metis prod.collapse)

text \<open>
  C16 (functional): \<open>argsort()[-1000:]\<close> selects the best-scoring orbits:
  for any argsort meeting its contract, every orbit it leaves out scores at
  most as well as every orbit it selects, and it selects
  \<open>min(1000, n)\<close> distinct orbits.
\<close>

theorem best_indices_top:
  assumes "is_argsort logprobs (argsort logprobs)" "i \<in> set (best_indices argsort logprobs)"
    "j < length logprobs" "j \<notin> set (best_indices argsort logprobs)"
  shows "logprobs ! j \<le> logprobs ! i \<and>
         length (best_indices argsort logprobs) = min 1000 (length logprobs) \<and>
         distinct (best_indices argsort logprobs)"
proof -
  note perm = is_argsort_perm [OF assms(1)]
  have "logprobs ! j \<le> logprobs ! i"
    using take_last_argsort_le [OF assms(1) _ assms(3)] assms(2,4) by (simp add: best_indices_def)
  then show ?thesis
    using perm by (simp add: best_indices_def take_last_def)
qed

text \<open>
  C17 (liveness): the script runs through to the saved figure. When the
  object is constructed with one-dimensional per-epoch arrays, the chains
  file has at least \<open>10^5\<close> rows, the generator returns arrays of the
  size it is asked for, the choice of rows meets its contract,
  \<open>compute_sep\<close> gives one orbit per row, from any generator state, and
  argsort meets its contract,
  the run neither raises nor stops at \<open>None\<close>: it selects 1000 orbit
  indices, all below \<open>10^5\<close>, saves five panels to \<open>planetpi_test.png\<close>,
  and leaves the world as the construction left it.
\<close>

theorem driver_reaches_plots:
  assumes "fst (new_hip_logprob svc ext w ''027321'') = Inr st" "epoch_ndim st = 1"
    "\<forall>mu sd k g'. length (fst (normal mu sd k g')) = k"
    "files w chains_path = Some lines" "100000 \<le> length (parse_csv libs lines)"
    "\<forall>N k g. k \<le> N \<longrightarrow> choice_ok N k (fst (sample_choice libs N k g))"
    "\<forall>rows g. posterior_len (fst (compute_sep libs rows g)) (length rows)"
    "\<forall>keys. is_argsort keys (argsort keys)"
  shows "\<exists>best panels.
           driver_run calc svc ext libs w normal g argsort =
             (Inr (best, ''planetpi_test.png'', panels), w\<lparr>vizier_row_limit := -1\<rparr>) \<and>
           length best = 1000 \<and> set best \<subseteq> {..<100000} \<and> length panels = 5"
proof -
  have wf: "hip_wf st" by (rule new_hip_logprob_hip_wf [OF assms(1)])
  let ?df = "parse_csv libs lines"
  let ?c = "sample_choice libs (length ?df) 100000 g"
  let ?sub = "map (\<lambda>i. ?df ! i) (fst ?c)"
  have ok: "choice_ok (length ?df) 100000 (fst ?c)" using assms(5,6) by blast
  have smp: "df_sample (sample_choice libs) ?df 100000 g = Inr (?sub, snd ?c)"
    using assms(5) by (rule df_sample_Inr)
  obtain df_orb g2 where sep: "compute_sep libs ?sub (snd ?c) = (df_orb, g2)"
    by (cases "compute_sep libs ?sub (snd ?c)")
  have pl: "posterior_len df_orb 100000"
    using assms(7) [rule_format, of ?sub "snd ?c"] ok sep by (simp add: choice_ok_def)
  obtain best panels where
    "driver_score calc st normal g2 df_orb argsort = Inr (best, ''planetpi_test.png'', panels)"
    "length best = 1000" "set best \<subseteq> {..<100000}" "length panels = 5"
    using driver_score_reaches [OF wf assms(2,3) pl _ assms(8), where calc = calc and g = g2]
    by auto
  then show ?thesis
    using new_hip_logprob_run [OF assms(1)] smp assms(4) sep
    by (simp add: driver_run_def read_chains_def)
qed

text \<open>
  C18 (refinement): the driver and the evaluator agree on the layout of the
  batch: on a well-formed state of one-dimensional arrays, the scores of the
  driver's \<open>samples\<close> are, for each posterior orbit \<open>j\<close> in order, the
  contract's log-probability of that orbit with its drawn astrometric
  parameters, the planet as the secondary mass and star plus planet as the
  total mass.
\<close>

theorem driver_scores:
  assumes "hip_wf st" "epoch_ndim st = 1" "draws_len d n" "posterior_len post n" "0 < n"
  shows "compute_lnprob calc st (driver_samples d post) False =
           Inr (Some (map (\<lambda>j. cand_lnprob calc st (posterior_candidate d post j) False) [0..<n]))"
proof -
  obtain v where v: "compute_lnprob calc st (driver_samples d post) False = Inr (Some v)"
    "length v = n" "\<forall>j<n. v ! j = cand_lnprob calc st (posterior_candidate d post j) False"
    using driver_lnprob_nth [OF assms] by blast
  have "v = map (\<lambda>j. cand_lnprob calc st (posterior_candidate d post j) False) [0..<n]"
    by (rule nth_equalityI) (simp_all add: v)
  with v show ?thesis by simp
qed


text \<open>
  C27 (safety): the parallax prior and the selection work together: when at
  least 1000 orbits of the posterior have a positive parallax, every orbit
  \<open>argsort()[-1000:]\<close> selects has a positive parallax, whatever order
  argsort gives to equal scores.
\<close>

theorem best_orbits_positive_parallax:
  assumes "hip_wf st" "epoch_ndim st = 1" "draws_len d n" "posterior_len post n"
    "compute_lnprob calc st (driver_samples d post) False = Inr (Some lp)"
    "1000 \<le> card {j. j < n \<and> 0 < df_plx post ! j}" "is_argsort lp (argsort lp)"
  shows "\<forall>i \<in> set (best_indices argsort lp). 0 < df_plx post ! i"
proof
  let ?P = "{j. j < n \<and> 0 < df_plx post ! j}"
  let ?best = "best_indices argsort lp"
  have "?P \<noteq> {}" using assms(6) by (metis card.empty not_numeral_le_zero)
  then have n: "0 < n" by auto
  obtain v where v: "compute_lnprob calc st (driver_samples d post) False = Inr (Some v)"
    "length v = n" "\<forall>j<n. v ! j = cand_lnprob calc st (posterior_candidate d post j) False"
    using driver_lnprob_nth [OF assms(1-4) n] by blast
  have len: "length lp = n" using v assms(5) by simp
  have sc: "lp ! j = NegInf \<longleftrightarrow> df_plx post ! j \<le> 0" if "j < n" for j
    using v assms(5) that by (simp add: cand_lnprob_def posterior_candidate_def)
  note perm = is_argsort_perm [OF assms(7)]
  fix i assume i: "i \<in> set ?best"
  show "0 < df_plx post ! i"
  proof (rule ccontr)
    assume np: "\<not> 0 < df_plx post ! i"
    have "i < n"
      using i set_take_last [of 1000 "argsort lp"] perm(2) len by (auto simp: best_indices_def)
    with np have neg: "lp ! i = NegInf" using sc by simp
    have "?P \<subseteq> set ?best"
    proof
      fix j assume j: "j \<in> ?P"
      show "j \<in> set ?best"
      proof (rule ccontr)
        assume "j \<notin> set ?best"
        then have "lp ! j \<le> lp ! i"
          using take_last_argsort_le [OF assms(7)] i j len by (simp add: best_indices_def)
        with neg have "lp ! j = NegInf" by (simp add: fval_le_NegInf)
        with j sc show False by simp
      qed
    qed
    moreover have "i \<notin> ?P" using np by simp
    moreover have "length ?best \<le> 1000" by (simp add: best_indices_def)
    ultimately show False using i assms(6) card_insert_le_length [of i ?P ?best 1000] by simp
  qed
qed

text \<open>
  C28 (error): the posterior is read after the construction, so its
  failures leave the world as the construction left it: a missing chains
  file raises \<open>FileNotFoundError\<close>, and a chains table of fewer than
  \<open>10^5\<close> rows makes \<open>df.sample\<close> raise \<open>ValueError\<close> before any orbit is
  scored, whatever the generator and the orbit model.
\<close>

theorem driver_posterior_errors:
  assumes "fst (new_hip_logprob svc ext w ''027321'') = Inr st"
  shows "(files w chains_path = None \<longrightarrow>
           driver_run calc svc ext libs w normal g argsort =
             (Inl FileNotFoundError, w\<lparr>vizier_row_limit := -1\<rparr>)) \<and>
         (files w chains_path = Some lines \<and> length (parse_csv libs lines) < 100000 \<longrightarrow>
           driver_run calc svc ext libs w normal g argsort =
             (Inl ValueError, w\<lparr>vizier_row_limit := -1\<rparr>))"
  using new_hip_logprob_run [OF assms]
  by (simp add: driver_run_def read_chains_def df_sample_def)

end
