(* ===== verification/Spec2Isabelle.thy ===== *)
theory Spec2Isabelle
  imports Driver DataSources
begin

text \<open>
  \<^bold>\<open>A verified model of the Hipparcos IAD log-likelihood (src/compute_chi2.py).\<close>

  \<^bold>\<open>The program.\<close> One class, \<open>HipparcosLogProb\<close>. Its constructor
  (lines 30--92) reads the star's best-fit catalog solution (Vizier I/311/hip2),
  the intermediate astrometric data (one row per scan: epoch offset, scan
  direction \<open>(cos_phi, sin_phi)\<close>, abscissa residual \<open>R\<close>, error \<open>eps\<close>), the
  Earth's barycentric positions at the epochs, and reconstructs once the
  photocenter series \<open>alpha_abs_st, delta_abs\<close> implied by the catalog
  solution (Nielsen et al.\ 2020, Eqs.\ 1--3). \<open>compute_lnprob\<close> (lines
  94--208) scores a \<open>P \<times> M\<close> batch of candidates, \<open>P \<in> {5, 13}\<close>: for
  every epoch it computes, for all candidates at once, the residual of the
  candidate's model position along the scan direction (adding the reflex
  motion \<open>-m1/mtot\<close> times the orbit offset from \<open>orbitize\<close>'s
  \<open>calc_orbit\<close> when \<open>P = 13\<close>); it reduces these to a chi-square per
  candidate, returns \<open>-chi2/2\<close>, overrides it with \<open>-inf\<close> for a
  non-positive parallax, and negates on request. The \<open>__main__\<close> block
  (lines 211--300) is a driver script.

  \<^bold>\<open>Theories and correspondence.\<close>
  \<^item> \<open>Prelude\<close>: \<open>fval\<close> (floats as reals with \<open>NegInf\<close>, \<open>PosInf\<close>;
    \<open>uminus\<close> and \<open>linorder\<close> instantiated), \<open>py_error\<close>, numpy arrays of
    zero, one and two dimensions (\<open>ndarray\<close>, \<open>np_transpose\<close>,
    \<open>np_getitem\<close>), the numpy operations on one-dimensional arrays as lists
    (\<open>vadd\<close>, \<open>smul\<close>, \<open>column\<close>, \<open>hcat\<close>, \<open>select_columns\<close>,
    \<open>np_sum_axis1\<close>, ...) with their index lemmas (collection
    \<open>np_simps\<close>), the index-assignment loop lemma \<open>nth_foldl_update\<close>, and
    Cauchy--Schwarz in two dimensions.
  \<^item> \<open>Catalog\<close>: lines 34--53; the query result is a list of tables of
    \<open>vizier_row\<close>s; \<open>load_catalog\<close> takes row 0 of table 0 into the record
    \<open>catalog\<close>, raising \<open>IndexError\<close> if there is none.
  \<^item> \<open>Observations\<close>: lines 55--66; \<open>np_loadtxt\<close> models numpy's load
    with its squeezing of axes of length one, \<open>load_iad\<close> the transpose
    and the reads \<open>iad[1]\<close>, \<open>iad[3]\<close>..\<open>iad[6]\<close> into the record
    \<open>iad_columns\<close>, with numpy's \<open>ValueError\<close>/\<open>IndexError\<close>;
    \<open>load_iad_eq\<close> gives the result by the shape of the file.
  \<^item> \<open>Reconstruct\<close>: the object's attributes are the record \<open>hip_state\<close>
    (extending \<open>catalog\<close>, with \<open>epoch_ndim\<close>, the number of dimensions of
    the per-epoch arrays); \<open>observe\<close> (lines 44--72), \<open>changein_alpha_st\<close>,
    \<open>changein_delta\<close>, \<open>reconstruct\<close> (74--92) and the constructor
    \<open>init_hip\<close> (30--92); the invariant \<open>hip_wf\<close> (all per-epoch arrays
    have one entry per epoch, and are scalars exactly when there is one).
  \<^item> \<open>Likelihood\<close>: \<open>compute_lnprob\<close> and its parts in the order of the
    code: \<open>astro_of\<close>/\<open>planets_of\<close> (parameter unpacking and the 5/13 layout
    as the datatype \<open>planets\<close>), \<open>model_alpha\<close>/\<open>model_delta\<close>,
    \<open>orbit_offset\<close>, \<open>epoch_position\<close>, \<open>epoch_dist\<close> (one row of
    \<open>dist\<close>), \<open>fill_rows\<close> over \<open>np_empty\<close> (the epoch loop),
    \<open>chi2_terms\<close> reduced by \<open>np_sum_axis1\<close>, \<open>mask_bad_plx\<close>,
    \<open>negate_if\<close>, \<open>lnprob_batch\<close> (which raises \<open>TypeError\<close> on
    zero-dimensional arrays, line 158). The contract per candidate, from the
    spec, is \<open>cand_position\<close>, \<open>cand_dist\<close>, \<open>cand_chi2\<close>,
    \<open>cand_lnprob\<close> on a \<open>candidate\<close> record, with \<open>candidates\<close> the
    columns of \<open>samples\<close>.
  \<^item> \<open>DataSources\<close>: the constructor's I/O (lines 30--57) over an
    explicit \<open>world\<close> (the class attribute \<open>Vizier.ROW_LIMIT\<close> and the
    file system): \<open>iad_file_name\<close> (line 56), the text reading of
    \<open>np.loadtxt\<close> (\<open>loadtxt_rows\<close>: \<open>skiprows=1\<close>, \<open>#\<close> comments,
    blank lines, \<open>split_ws\<close>, \<open>float()\<close> per token), \<open>read_iad\<close> and
    \<open>new_hip_logprob\<close>, the whole constructor with its effects, built on
    \<open>init_hip\<close>.
  \<^item> \<open>Driver\<close>: the \<open>__main__\<close> block (lines 211--300) as \<open>driver_run\<close>,
    over the world: the construction with its effects (\<open>new_hip_logprob\<close>),
    the posterior (\<open>read_chains\<close> at \<open>chains_path\<close>, \<open>df_sample\<close> of
    \<open>10^5\<close> rows through the external choice \<open>sample_choice\<close> with its
    contract \<open>choice_ok\<close>, the external \<open>compute_sep\<close>; record
    \<open>driver_libs\<close>; the generator's state is threaded through the choice,
    \<open>compute_sep\<close> and the draws), then \<open>driver_score\<close>: \<open>driver_draws\<close> (four draws from a generator whose state is threaded
    through), \<open>driver_samples\<close> (the 13 rows), the scoring call,
    \<open>best_indices\<close> (\<open>argsort()[-1000:]\<close>, with \<open>take_last\<close>), and the
    figure as \<open>plot_data\<close> over \<open>driver_panels\<close>, saved under its path. The row layout of
    the docstring is \<open>sample_layout\<close> over the datatype \<open>param\<close>;
    \<open>batch_param\<close> names the array \<open>compute_lnprob\<close> binds to each
    parameter.
  \<^item> this theory: spec fixtures, the properties spanning components, and a
    witness for every property with hypotheses.

  \<^bold>\<open>External collaborators\<close> are parameters: the orbit solver is any
  function \<open>calc :: orbit_model\<close> applied entry by entry; the decimal-year to
  MJD conversion and the Earth ephemeris are the record \<open>externals\<close>; the
  Vizier service and Python's \<open>float()\<close> on a token are the record
  \<open>services\<close>; the
  random generator is any \<open>normal :: 'r normal_gen\<close>; numpy's argsort is any
  function meeting the contract \<open>is_argsort\<close> (\<open>argsort_stable\<close> is one).
  Every theorem holds for all of them.

  \<^bold>\<open>What is proved.\<close>
  \<^item> The evaluator: the batched, epoch-outer evaluator refines the
    per-candidate contract (C1), whatever the content of \<open>np.empty\<close>
    (\<open>fill_rows_upt\<close>). Also proved: the parallax prior (C2), the negation
    flag (C3), the usage errors (C6), the sign bound (C7), the exact-fit
    characterisation (C8), independence of candidates under concatenation
    (C9) and under any column selection (C20), the \<open>AxisError\<close> of an
    empty batch (C12), that each row of \<open>dist\<close> is the linear model of the
    five parameters when there is no companion (C21), and the bound on the
    orbit term: it moves a residual by at most \<open>|m1/mtot|\<close> times the
    companion's offset times the scan vector's length, for any orbit solver
    (C29).
  \<^item> The constructor: its invariant (C10), its errors (C11), that the
    state gives back the file (C13), that it accepts a single-column file
    (C15), and that it checks only the shape of the file, so that scan
    directions that are not unit vectors are accepted (C30).
  \<^item> The data sources: distinct stars read distinct IAD files (C22); the
    constructor's one effect, \<open>Vizier.ROW_LIMIT = -1\<close>, happens on every
    path and makes the result independent of the previous limit (C23); a
    missing file raises after the catalog read (C24); a file written from
    rows under any header is read back as those rows (C25); only one
    header line is skipped (C26).
  \<^item> Across components: the zero-mass companion (C4), the catalog solution
    scored against its own reconstruction (C5), and the \<open>TypeError\<close> of
    every call on a one-row or one-column file (C14).
  \<^item> The driver: the best orbits are the top \<open>min(1000, n)\<close> (C16); the
    script reaches the saved figure, with exactly 1000 best orbits, from
    any world whose IAD file gives one-dimensional arrays and whose chains
    file has \<open>10^5\<close> rows or more (C17); its batch scores each posterior
    orbit by the contract (C18); \<open>compute_lnprob\<close> unpacks the rows in
    the layout of its docstring (C19); when at least 1000 orbits have a
    positive parallax, the prior keeps every non-positive one out of the
    selection, whatever order argsort gives to ties (C27); a missing or
    short chains file fails after the construction, leaving its effect on
    the world (C28).

  Both loops of the evaluator run over a finite index range, as
  \<open>foldl\<close> over \<open>[0..<n]\<close>, so their termination is not in question and
  no fuel is needed. C17 states the progress of the whole script.

  \<^bold>\<open>Plan.\<close> Modelled in order of importance: the evaluator first (its
  contract, prior, negation, errors), then the constructor with numpy's
  shapes, the properties linking the two, the data sources and the
  driver with its posterior.

  \<^bold>\<open>Not modelled.\<close>
  \<^item> Floating-point rounding and NaN. Values are reals, and \<open>x / 0 = 0\<close>
    in HOL where numpy gives \<open>inf\<close>/\<open>nan\<close>: with \<open>eps = 0\<close> an exact fit
    scores 0 where numpy gives \<open>nan\<close>, and with \<open>mtot = 0\<close> the orbit
    term vanishes where numpy gives \<open>inf\<close>/\<open>nan\<close>. The properties about
    scores (C4, C7, C29 in particular) are about non-zero \<open>eps\<close> and
    \<open>mtot\<close> where they rely on a division; see the findings.
  \<^item> The objects are values: a method that mutated its object in place
    could not be expressed, and none of the source's methods does.
  \<^item> The network query itself, Python's \<open>float()\<close> on a token, the
    ephemeris and the time conversion: external functions, parameters of
    every theorem.
  \<^item> In the driver: the CSV format and decompression (\<open>parse_csv\<close>),
    numpy's choice algorithm (\<open>sample_choice\<close>, under its contract) and
    the basis change \<open>compute_sep\<close> (a radvel/orbitize routine outside
    src/, which may draw from the generator) are parameters; the rendering
    of the figure is not modelled (its data is).
  \<^item> The Vizier service, astropy's time conversion and ephemeris and
    orbitize's \<open>calc_orbit\<close> are libraries the source only calls; their use
    is modelled, their bodies are not.
\<close>

section \<open>Fixtures\<close>

text \<open>
  The spec's two-epoch fixture (section 8), a second one with a positive
  catalog parallax, non-zero residuals and the Earth off the origin, and a
  simple orbit model \<open>fixture_orbit\<close> for the witnesses.
\<close>

definition fixture_ext :: externals where
  "fixture_ext = \<lparr>decimalyear_to_mjd = (\<lambda>t. t), earth_barycentric = (\<lambda>t. (0, 0, 0))\<rparr>"

definition fixture_row :: vizier_row where
  "fixture_row = \<lparr>RArad = 0, e_RArad = 0, DErad = 0, e_DErad = 0, Plx = 0, e_Plx = 0,
                  pmRA = 0, e_pmRA = 0, pmDE = 0, e_pmDE = 0, F2 = 0\<rparr>"

definition fixture_iad :: "real list list" where
  "fixture_iad = [[1, 1, 0, 1, 0, 0, 1], [2, 0, 0, 0, 1, 0, 1]]"


definition fixture_state :: hip_state where
  "fixture_state =
     \<lparr>hip_num = ''027321'', plx0 = 0, pm_ra0 = 0, pm_dec0 = 0, alpha0 = 0, delta0 = 0,
      plx0_err = 0, pm_ra0_err = 0, pm_dec0_err = 0, alpha0_err = 0, delta0_err = 0,
      epoch_ndim = 1, epochs = [1992.25, 1991.25], epochs_mjd = [1992.25, 1991.25],
      cos_phi = [1, 0], sin_phi = [0, 1], R = [0, 0], eps = [1, 1],
      X = [0, 0], Y = [0, 0], Z = [0, 0], alpha_abs_st = [0, 0], delta_abs = [0, 0]\<rparr>"

definition fixture_orbit :: orbit_model where
  "fixture_orbit t a e i w W tp p mt = (a * p, 0, 0)"

definition fixture2_ext :: externals where
  "fixture2_ext = \<lparr>decimalyear_to_mjd = (\<lambda>t. t), earth_barycentric = (\<lambda>t. (0, 1, 0))\<rparr>"

definition fixture2_iad :: "real list list" where
  "fixture2_iad = [[1, 1, 0, 1, 0, 3, 1], [2, 0, 0, 0, 1, 4, 2]]"

definition fixture2_state :: hip_state where
  "fixture2_state =
     \<lparr>hip_num = ''027321'', plx0 = 2, pm_ra0 = 0, pm_dec0 = 0, alpha0 = 0, delta0 = 0,
      plx0_err = 0, pm_ra0_err = 0, pm_dec0_err = 0, alpha0_err = 0, delta0_err = 0,
      epoch_ndim = 1, epochs = [1992.25, 1991.25], epochs_mjd = [1992.25, 1991.25],
      cos_phi = [1, 0], sin_phi = [0, 1], R = [3, 4], eps = [1, 2],
      X = [0, 0], Y = [1, 1], Z = [0, 0], alpha_abs_st = [1, -2], delta_abs = [0, 4]\<rparr>"

definition batch_fit :: "real list list" where
  "batch_fit = [[0], [0], [0], [0], [1]]"

definition batch_bad_plx :: "real list list" where
  "batch_bad_plx = [[0], [0], [0], [0], [-1]]"

definition batch_pm :: "real list list" where
  "batch_pm = [[1], [0], [0], [0], [1]]"

definition batch_orbit :: "real list list" where
  "batch_orbit = [[0], [0], [0], [0], [1], [1], [0], [0], [0], [0], [0], [2], [0]]"

definition fixture_one_row :: "real list list" where
  "fixture_one_row = [[1, 1, 0, 1, 0, 0, 1]]"

text \<open>
  For the driver: a generator that returns its mean, a one-orbit posterior,
  one-orbit draws, and a monotone score vector of 1001 entries.
\<close>

definition fixture_normal :: "unit normal_gen" where
  "fixture_normal mu sd k g = (replicate k mu, g)"

definition fixture_post :: posterior where
  "fixture_post = \<lparr>df_m_st = [1], df_mp = [0.001], df_plx = [1], df_sma = [1], df_ecc = [0],
                   df_inc_rad = [0], df_omega_pl_rad = [0], df_lan_rad = [0], df_tau_58849 = [0]\<rparr>"

definition fixture_draws :: draws where
  "fixture_draws = \<lparr>pm_ra_samples = [0], pm_dec_samples = [0], alpha_H0_samples = [0],
                    dec_H0_samples = [0]\<rparr>"

definition fixture_keys :: "fval list" where
  "fixture_keys = map (\<lambda>i. Fin (real i)) [0..<1001]"

text \<open>
  A posterior of 2000 orbits of which the first 1000 have a negative
  parallax, and draws of the same size.
\<close>

definition fixture_plx2000 :: "real list" where
  "fixture_plx2000 = replicate 1000 (-1) @ replicate 1000 1"

definition fixture_post2000 :: posterior where
  "fixture_post2000 = \<lparr>df_m_st = replicate 2000 1, df_mp = replicate 2000 0.001,
     df_plx = fixture_plx2000, df_sma = replicate 2000 1, df_ecc = replicate 2000 0,
     df_inc_rad = replicate 2000 0, df_omega_pl_rad = replicate 2000 0,
     df_lan_rad = replicate 2000 0, df_tau_58849 = replicate 2000 0\<rparr>"

definition fixture_draws2000 :: draws where
  "fixture_draws2000 = \<lparr>pm_ra_samples = replicate 2000 0, pm_dec_samples = replicate 2000 0,
     alpha_H0_samples = replicate 2000 0, dec_H0_samples = replicate 2000 0\<rparr>"

text \<open>
  For the data sources: a \<open>float()\<close> that knows the tokens 0, 1 and 2, a
  printer that writes them, a Vizier service answering with
  \<open>fixture_row\<close>, and file systems with and without the IAD file of the
  spec's fixture.
\<close>

definition fixture_parse :: "string \<Rightarrow> real option" where
  "fixture_parse t = (if t = ''0'' then Some 0 else if t = ''1'' then Some 1
                      else if t = ''2'' then Some 2 else None)"

definition fixture_show :: "real \<Rightarrow> string" where
  "fixture_show x = (if x = 0 then ''0'' else if x = 1 then ''1'' else ''2'')"

definition fixture_services :: services where
  "fixture_services = \<lparr>vizier_query = (\<lambda>_ _. [[fixture_row]]), parse_float = fixture_parse\<rparr>"

definition fixture_no_files :: world where
  "fixture_no_files = \<lparr>vizier_row_limit = 50, files = (\<lambda>_. None)\<rparr>"

definition fixture_lines :: "string list" where
  "fixture_lines = ''HIP 027321 IAD'' # map (show_row fixture_show) fixture_iad"

definition fixture_files :: world where
  "fixture_files = \<lparr>vizier_row_limit = 50,
                    files = (\<lambda>p. if p = iad_file_name ''027321'' then Some fixture_lines else None)\<rparr>"

text \<open>
  For the driver: the same world with a chains file of \<open>k\<close> lines, a
  CSV parser giving one row per line, the choice of the first \<open>k\<close>
  positions, and a basis change giving one orbit of positive parallax per
  row.
\<close>

definition fixture_world :: "nat \<Rightarrow> world" where
  "fixture_world k = fixture_files\<lparr>files := (files fixture_files)(chains_path \<mapsto> replicate k ''0'')\<rparr>"

definition fixture_libs :: "(unit, unit) driver_libs" where
  "fixture_libs =
     \<lparr>parse_csv = map (\<lambda>_. ()), sample_choice = (\<lambda>N k g. ([0..<k], g)),
      compute_sep = (\<lambda>rows g. let m = length rows in
        (\<lparr>df_m_st = replicate m 1, df_mp = replicate m 0.001, df_plx = replicate m 1,
          df_sma = replicate m 1, df_ecc = replicate m 0, df_inc_rad = replicate m 0,
          df_omega_pl_rad = replicate m 0, df_lan_rad = replicate m 0,
          df_tau_58849 = replicate m 0\<rparr>, g))\<rparr>"

lemmas init_eval = init_hip_def load_catalog_def catalog_of_row_def fixture_row_def load_iad_eq
  is_matrix_def column_def sadd_def observe_def catalog.defs hip_state.defs reconstruct_def
  changein_alpha_st_def changein_delta_def vadd_def vsub_def vmul_def smul_def subs_def Let_def

lemmas lnprob_eval = compute_lnprob_def planets_of_def astro_of_def lnprob_batch_def fill_rows_def
  np_empty_def epoch_dist_def epoch_position_def model_alpha_def model_delta_def
  parallax_ra_factor_def parallax_dec_factor_def chi2_terms_def np_sum_axis1_def mask_bad_plx_def
  bad_plx_def
  negate_if_def vadd_def smul_def ssub_def vabs_def vdiv_def column_def upt_rec Let_def

lemma fixture_init:
  "init_hip fixture_ext ''027321'' [[fixture_row]] fixture_iad = Inr fixture_state"
  by (simp add: init_eval fixture_iad_def fixture_ext_def fixture_state_def)

lemma fixture2_init:
  "init_hip fixture2_ext ''027321'' [[fixture_row\<lparr>Plx := 2\<rparr>]] fixture2_iad = Inr fixture2_state"
  by (simp add: init_eval fixture2_iad_def fixture2_ext_def fixture2_state_def)

lemma fixture_wf: "hip_wf fixture_state" "hip_wf fixture2_state"
  by (simp_all add: hip_wf_def fixture_state_def fixture2_state_def)

lemma fixture_one_row_init:
  "\<exists>st. init_hip fixture_ext ''027321'' [[fixture_row]] fixture_one_row = Inr st"
  by (simp add: init_eval fixture_one_row_def)

lemma fixture_ndim: "epoch_ndim fixture_state = 1" "epoch_ndim fixture2_state = 1"
  by (simp_all add: fixture_state_def fixture2_state_def)

lemma fixture_file_facts:
  "files fixture_files (iad_file_name ''027321'') =
     Some (''HIP 027321 IAD'' # map (show_row fixture_show) fixture_iad)"
  "\<forall>x \<in> set (concat fixture_iad). parse_float fixture_services (fixture_show x) = Some x \<and>
     token_ok (fixture_show x)"
  "\<forall>r \<in> set fixture_iad. r \<noteq> []"
  by (simp_all add: fixture_files_def fixture_lines_def fixture_iad_def fixture_services_def
      fixture_parse_def fixture_show_def token_ok_def is_ws_def)

lemma fixture_files_init:
  "new_hip_logprob fixture_services fixture_ext fixture_files ''027321'' =
     (Inr fixture_state, fixture_files\<lparr>vizier_row_limit := -1\<rparr>)"
proof -
  have "read_iad fixture_services (fixture_files\<lparr>vizier_row_limit := -1\<rparr>) ''027321'' = Inr fixture_iad"
    using fixture_file_facts(1) loadtxt_rows_show [OF fixture_file_facts(2,3)]
    by (simp add: read_iad_def fixture_services_def)
  then show ?thesis
    using fixture_init
    by (simp add: new_hip_logprob_def init_hip_def fixture_services_def Let_def split: sum.splits)
qed

lemma fixture_world_init:
  "fst (new_hip_logprob fixture_services fixture_ext (fixture_world k) ''027321'') = Inr fixture_state"
proof -
  have "iad_file_name ''027321'' \<noteq> chains_path" by (simp add: iad_file_name_def chains_path_def)
  then have "files (fixture_world k) (iad_file_name ''027321'') = files fixture_files (iad_file_name ''027321'')"
    by (simp add: fixture_world_def)
  then show ?thesis
    using new_hip_logprob_frame fixture_files_init by (metis fst_conv)
qed

lemma fixture_libs_contracts:
  "\<forall>N k g. k \<le> N \<longrightarrow> choice_ok N k (fst (sample_choice fixture_libs N k g))"
  "\<forall>rows g. posterior_len (fst (compute_sep fixture_libs rows g)) (length rows)"
  by (simp_all add: fixture_libs_def choice_ok_def list_all_iff posterior_len_def Let_def)

section \<open>Properties spanning the components\<close>

text \<open>
  C4 (functional): with 13 parameter rows and a companion of zero mass in
  every candidate, the scores equal those of the 5-row call on the same
  proper motion, offsets and parallax: the orbit perturbation vanishes.
\<close>

theorem zero_mass_companion:
  assumes "hip_wf st" "epoch_ndim st = 1" "is_matrix samples m" "length samples = 13"
    "samples ! 12 = replicate m 0"
  shows "compute_lnprob calc st samples neg = compute_lnprob calc st (take 5 samples) neg"
proof (cases "m = 0")
  case True
  have "astro_len (astro_of samples) m" "astro_len (astro_of (take 5 samples)) m"
    using astro_len_of [OF assms(3)] astro_len_of [of "take 5 samples" m] assms(3,4)
    by (auto simp: is_matrix_def list_all_length)
  with True assms(2,4) show ?thesis
    by (simp add: compute_lnprob_def planets_of_def astro_len_def lnprob_batch_empty)
next
  case False
  then have m0: "0 < m" by simp
  have m5: "is_matrix (take 5 samples) m"
    using assms(3) by (simp add: is_matrix_def list_all_length)
  obtain v where v: "compute_lnprob calc st samples neg = Inr (Some v)" "length v = m"
    "\<forall>j<m. v ! j = cand_lnprob calc st (candidate_of samples j) neg"
    using compute_lnprob_nth [OF assms(1,2,3) disjI2 [OF assms(4)] m0] by blast
  have l5: "length (take 5 samples) = 5" using assms(4) by simp
  obtain w where w: "compute_lnprob calc st (take 5 samples) neg = Inr (Some w)" "length w = m"
    "\<forall>j<m. w ! j = cand_lnprob calc st (candidate_of (take 5 samples) j) neg"
    using compute_lnprob_nth [OF assms(1,2) m5 disjI1 [OF l5] m0] by blast
  have "v ! j = w ! j" if "j < m" for j
  proof -
    have "candidate_of (take 5 samples) j = (candidate_of samples j)\<lparr>c_orbit := None\<rparr>"
      using assms(4) by (simp add: candidate_of_def)
    moreover have "o_m1 (the (c_orbit (candidate_of samples j))) = 0"
      "c_orbit (candidate_of samples j) \<noteq> None"
      using assms(4,5) that by (simp_all add: candidate_of_def)
    ultimately show ?thesis
      using v(3) w(3) that cand_lnprob_massless by fastforce
  qed
  then have "v = w" by (intro nth_equalityI) (simp_all add: v w)
  with v w show ?thesis by simp
qed

text \<open>
  C5 (refinement): the constructor and the evaluator agree on the catalog
  solution: scoring the candidate that is the catalog's own proper motion and
  parallax with zero offset gives chi-square equal to the sum of the squared
  normalised IAD residuals \<open>(R_i / eps_i)^2\<close>, when the file is a table
  of at least two rows and two columns whose scan directions are unit
  vectors.
\<close>

theorem catalog_solution_fit:
  assumes "init_hip ext num tables rows = Inr st" "1 < length rows" "length (hd rows) \<noteq> 1"
    "\<forall>i<length rows. (rows ! i ! 3)\<^sup>2 + (rows ! i ! 4)\<^sup>2 = 1"
    "0 < plx0 st"
  shows "compute_lnprob calc st [[pm_ra0 st], [pm_dec0 st], [0], [0], [plx0 st]] False =
           Inr (Some [Fin (- 0.5 * (\<Sum>i\<leftarrow>[0..<length rows]. (R st ! i / eps st ! i)\<^sup>2))])"
proof -
  obtain st0 where st: "st = reconstruct st0" and wf: "hip_wf' st0"
    and n: "length (epochs st0) = length rows"
    and cols: "\<And>i. i < length rows \<Longrightarrow> cos_phi st0 ! i = rows ! i ! 3 \<and> sin_phi st0 ! i = rows ! i ! 4"
    using init_hip_state [OF assms(1)] assms(3) by metis
  let ?samples = "[[pm_ra0 st], [pm_dec0 st], [0], [0], [plx0 st]] :: real list list"
  have mat: "is_matrix ?samples 1" by (simp add: is_matrix_def)
  have wfst: "hip_wf st" using hip_wf_reconstruct [OF wf] st by simp
  have nd: "epoch_ndim st = 1"
    using wf n st assms(2) by (simp add: hip_wf'_def Let_def)
  obtain v where v: "compute_lnprob calc st ?samples False = Inr (Some v)" "length v = 1"
    "v ! 0 = cand_lnprob calc st (candidate_of ?samples 0) False"
    using compute_lnprob_nth [OF wfst nd mat] by auto
  have c: "candidate_of ?samples 0 =
             \<lparr>c_pm_ra = pm_ra0 st0, c_pm_dec = pm_dec0 st0, c_alpha_H0 = 0, c_delta_H0 = 0,
              c_plx = plx0 st0, c_orbit = None\<rparr>"
    by (simp add: candidate_of_def st)
  have d: "cand_dist calc st (candidate_of ?samples 0) i = \<bar>R st ! i\<bar>" if "i < length rows" for i
    using catalog_candidate_dist [OF wf _ _ c] cols [OF that] assms(4) that n st by simp
  have len: "length (epochs st) = length rows" using n st by simp
  have "cand_chi2 calc st (candidate_of ?samples 0) =
          (\<Sum>i\<leftarrow>[0..<length rows]. (cand_dist calc st (candidate_of ?samples 0) i / eps st ! i)\<^sup>2)"
    by (simp add: cand_chi2_def len)
  also have "\<dots> = (\<Sum>i\<leftarrow>[0..<length rows]. (R st ! i / eps st ! i)\<^sup>2)"
    by (rule arg_cong [where f = sum_list], rule map_cong) (simp_all add: d power_divide)
  finally have "cand_chi2 calc st (candidate_of ?samples 0) =
                  (\<Sum>i\<leftarrow>[0..<length rows]. (R st ! i / eps st ! i)\<^sup>2)" .
  moreover have "v = [v ! 0]" using v(2) by (cases v) simp_all
  ultimately show ?thesis
    using v assms(5) c st by (simp add: cand_lnprob_def)
qed
section \<open>The constructor and the file it reads\<close>

text \<open>
  C13 (roundtrip): the constructed state gives back an IAD file of more
  than one column: for every data row, the epoch minus 1991.25 is column 1, the scan direction is
  columns 3 and 4, the residual column 5 and its error column 6, and the
  reconstructed series keeps these entries, one per row.
\<close>

theorem init_hip_iad_roundtrip:
  assumes "init_hip ext num tables rows = Inr st" "length (hd rows) \<noteq> 1" "i < length rows"
  shows "epochs st ! i - 1991.25 = rows ! i ! 1 \<and> cos_phi st ! i = rows ! i ! 3 \<and>
         sin_phi st ! i = rows ! i ! 4 \<and> R st ! i = rows ! i ! 5 \<and> eps st ! i = rows ! i ! 6 \<and>
         length (alpha_abs_st st) = length rows \<and> length (delta_abs st) = length rows"
proof -
  obtain st0 where st: "st = reconstruct st0" and wf: "hip_wf' st0"
    and n: "length (epochs st0) = length rows"
    and cols: "\<And>i. i < length rows \<Longrightarrow>
        epochs st0 ! i - 1991.25 = rows ! i ! 1 \<and> cos_phi st0 ! i = rows ! i ! 3 \<and>
        sin_phi st0 ! i = rows ! i ! 4 \<and> R st0 ! i = rows ! i ! 5 \<and> eps st0 ! i = rows ! i ! 6"
    using init_hip_state [OF assms(1)] assms(2) by metis
  have "hip_wf st" using hip_wf_reconstruct [OF wf] st by simp
  then have "length (alpha_abs_st st) = length rows" "length (delta_abs st) = length rows"
    using n st by (simp_all add: hip_wf_def Let_def)
  with cols [OF assms(3)] st show ?thesis by simp
qed

text \<open>
  C14 (error): a constructor that succeeds on an IAD file of one row or one
  column yields an object that cannot score any batch: its per-epoch
  attributes are numpy scalars, and every call with 5 or 13 parameter rows
  raises \<open>TypeError\<close> at \<open>len(self.epochs)\<close> (line 158).
\<close>

theorem scalar_epochs_type_error:
  assumes "init_hip ext num tables rows = Inr st" "length rows = 1 \<or> length (hd rows) = 1"
    "length samples = 5 \<or> length samples = 13"
  shows "compute_lnprob calc st samples neg = Inl TypeError"
proof -
  obtain pl where pl: "planets_of samples = Some pl"
    using planets_of_Some [OF assms(3)] by blast
  have "epoch_ndim st = 0"
    using init_hip_epoch_ndim [OF assms(1)] assms(2) by simp
  then show ?thesis
    using compute_lnprob_batch [OF pl] lnprob_batch_scalar by simp
qed

section \<open>Witnesses\<close>

text \<open>Each property with hypotheses, applied where its hypotheses hold.\<close>

lemma compute_lnprob_refines_witness:
  "hip_wf fixture_state \<and> epoch_ndim fixture_state = 1 \<and> is_matrix batch_orbit 1 \<and>
   (length batch_orbit = 5 \<or> length batch_orbit = 13) \<and> (0::nat) < 1 \<and>
   compute_lnprob fixture_orbit fixture_state batch_orbit False =
     Inr (Some (map (\<lambda>c. cand_lnprob fixture_orbit fixture_state c False) (candidates batch_orbit)))"
  using Likelihood.compute_lnprob_refines [of fixture_state batch_orbit 1 fixture_orbit False]
    fixture_wf fixture_ndim
  by (simp add: batch_orbit_def is_matrix_def)

lemma compute_lnprob_nonpositive_plx_witness:
  "epoch_ndim fixture_state = 1 \<and>
   is_matrix batch_bad_plx 1 \<and> (length batch_bad_plx = 5 \<or> length batch_bad_plx = 13) \<and>
   (0::nat) < 1 \<and> batch_bad_plx ! 4 ! 0 \<le> 0 \<and>
   (\<exists>v. compute_lnprob fixture_orbit fixture_state batch_bad_plx True = Inr (Some v) \<and>
        v ! 0 = PosInf)"
  using Likelihood.compute_lnprob_nonpositive_plx [of fixture_state batch_bad_plx 1 0 fixture_orbit True]
    fixture_ndim
  by (simp add: batch_bad_plx_def is_matrix_def)

lemma compute_lnprob_usage_error_witness:
  "compute_lnprob fixture_orbit fixture_state [[1], [1], [1]] False = Inl IndexError \<and>
   compute_lnprob fixture_orbit fixture_state (replicate 7 [1]) False = Inr None"
  using Likelihood.compute_lnprob_usage_error [of fixture_orbit fixture_state "[[1], [1], [1]]" False]
    Likelihood.compute_lnprob_usage_error [of fixture_orbit fixture_state "replicate 7 [1]" False]
  by simp

lemma zero_mass_companion_witness:
  "hip_wf fixture_state \<and> epoch_ndim fixture_state = 1 \<and> is_matrix batch_orbit 1 \<and>
   length batch_orbit = 13 \<and>
   batch_orbit ! 12 = replicate 1 0 \<and>
   compute_lnprob fixture_orbit fixture_state batch_orbit False =
     compute_lnprob fixture_orbit fixture_state batch_fit False"
  using zero_mass_companion [of fixture_state batch_orbit 1 fixture_orbit False] fixture_wf fixture_ndim
  by (simp add: batch_orbit_def batch_fit_def is_matrix_def)

lemma catalog_solution_fit_witness:
  "init_hip fixture2_ext ''027321'' [[fixture_row\<lparr>Plx := 2\<rparr>]] fixture2_iad = Inr fixture2_state \<and>
   1 < length fixture2_iad \<and> length (hd fixture2_iad) \<noteq> 1 \<and>
   (fixture2_iad ! 0 ! 3)\<^sup>2 + (fixture2_iad ! 0 ! 4)\<^sup>2 = 1 \<and>
   (fixture2_iad ! 1 ! 3)\<^sup>2 + (fixture2_iad ! 1 ! 4)\<^sup>2 = 1 \<and>
   0 < plx0 fixture2_state \<and>
   compute_lnprob fixture_orbit fixture2_state
     [[pm_ra0 fixture2_state], [pm_dec0 fixture2_state], [0], [0], [plx0 fixture2_state]] False =
   Inr (Some [Fin (- 6.5)])"
proof -
  have unit: "\<forall>i<length fixture2_iad. (fixture2_iad ! i ! 3)\<^sup>2 + (fixture2_iad ! i ! 4)\<^sup>2 = 1"
    by (simp add: fixture2_iad_def less_Suc_eq numeral_2_eq_2)
  have pos: "0 < plx0 fixture2_state" by (simp add: fixture2_state_def)
  have shape: "1 < length fixture2_iad" "length (hd fixture2_iad) \<noteq> 1"
    by (simp_all add: fixture2_iad_def)
  show ?thesis
    using catalog_solution_fit [OF fixture2_init shape unit pos, of fixture_orbit] fixture2_init pos
      shape
    by (simp add: fixture2_iad_def fixture2_state_def upt_rec)
qed

lemma compute_lnprob_sign_witness:
  "compute_lnprob fixture_orbit fixture_state batch_pm False = Inr (Some [Fin (- 0.5)]) \<and>
   Fin (- 0.5) \<in> set [Fin (- 0.5)] \<and> Fin (- 0.5) \<le> Fin 0"
proof -
  have run: "compute_lnprob fixture_orbit fixture_state batch_pm False = Inr (Some [Fin (- 0.5)])"
    by (simp add: lnprob_eval fixture_state_def batch_pm_def)
  show ?thesis
    using Likelihood.compute_lnprob_sign [OF run, of "Fin (- 0.5)"] run by simp
qed

lemma compute_lnprob_zero_iff_fit_witness:
  "hip_wf fixture_state \<and> epoch_ndim fixture_state = 1 \<and> is_matrix batch_fit 1 \<and>
   (length batch_fit = 5 \<or> length batch_fit = 13) \<and> eps fixture_state ! 0 \<noteq> 0 \<and> eps fixture_state ! 1 \<noteq> 0 \<and>
   compute_lnprob fixture_orbit fixture_state batch_fit False = Inr (Some [Fin 0]) \<and>
   cand_dist fixture_orbit fixture_state (candidate_of batch_fit 0) 0 = 0 \<and>
   cand_dist fixture_orbit fixture_state (candidate_of batch_fit 0) 1 = 0"
proof -
  have eps: "\<forall>i<length (epochs fixture_state). eps fixture_state ! i \<noteq> 0"
    by (simp add: fixture_state_def less_Suc_eq numeral_2_eq_2)
  have run: "compute_lnprob fixture_orbit fixture_state batch_fit False = Inr (Some [Fin 0])"
    by (simp add: lnprob_eval fixture_state_def batch_fit_def)
  have n: "length (epochs fixture_state) = 2" by (simp add: fixture_state_def)
  show ?thesis
    using Likelihood.compute_lnprob_zero_iff_fit [of fixture_state batch_fit 1 0 fixture_orbit]
      fixture_wf fixture_ndim eps run n
    by (simp add: batch_fit_def is_matrix_def fixture_state_def)
qed

lemma compute_lnprob_hcat_witness:
  "hip_wf fixture_state \<and> epoch_ndim fixture_state = 1 \<and> is_matrix batch_fit 1 \<and>
   is_matrix batch_pm 1 \<and>
   length batch_fit = length batch_pm \<and> (length batch_fit = 5 \<or> length batch_fit = 13) \<and>
   (0::nat) < 1 \<and> compute_lnprob fixture_orbit fixture_state (hcat batch_fit batch_pm) False =
     Inr (Some [Fin 0, Fin (- 0.5)])"
proof -
  have a: "compute_lnprob fixture_orbit fixture_state batch_fit False = Inr (Some [Fin 0])"
    by (simp add: lnprob_eval fixture_state_def batch_fit_def)
  have b: "compute_lnprob fixture_orbit fixture_state batch_pm False = Inr (Some [Fin (- 0.5)])"
    by (simp add: lnprob_eval fixture_state_def batch_pm_def)
  show ?thesis
    using Likelihood.compute_lnprob_hcat [of fixture_state batch_fit 1 batch_pm 1 fixture_orbit False]
      fixture_wf fixture_ndim a b
    by (simp add: batch_fit_def batch_pm_def is_matrix_def)
qed

lemma compute_lnprob_empty_batch_witness:
  "epoch_ndim fixture_state = 1 \<and> is_matrix ([[], [], [], [], []] :: real list list) 0 \<and>
   compute_lnprob fixture_orbit fixture_state [[], [], [], [], []] True = Inl AxisError"
  using Likelihood.compute_lnprob_empty_batch [of fixture_state "[[], [], [], [], []]" fixture_orbit True]
    fixture_ndim
  by (simp add: is_matrix_def)

lemma init_hip_wf_witness:
  "init_hip fixture_ext ''027321'' [[fixture_row]] fixture_iad = Inr fixture_state \<and>
   hip_wf fixture_state \<and> length (epochs fixture_state) = length fixture_iad"
  using Reconstruct.init_hip_wf [OF fixture_init] fixture_init by (simp add: fixture_iad_def)

lemma init_hip_iad_roundtrip_witness:
  "init_hip fixture2_ext ''027321'' [[fixture_row\<lparr>Plx := 2\<rparr>]] fixture2_iad = Inr fixture2_state \<and>
   length (hd fixture2_iad) \<noteq> 1 \<and> (1::nat) < length fixture2_iad \<and>
   epochs fixture2_state ! 1 - 1991.25 = 0 \<and> R fixture2_state ! 1 = 4 \<and> eps fixture2_state ! 1 = 2"
  using init_hip_iad_roundtrip [OF fixture2_init, of 1] fixture2_init
  by (simp add: fixture2_iad_def)

lemma init_hip_errors_witness:
  "(\<exists>e. init_hip fixture_ext ''027321'' [[fixture_row]] [[1, 0, 0, 1, 0, 0, 1], [1]] = Inl e) \<and>
   init_hip fixture_ext ''027321'' [[fixture_row]] [[1, 0, 0, 1, 0, 0, 1], [1]] = Inl ValueError \<and>
   init_hip fixture_ext ''027321'' [] fixture_iad = Inl IndexError"
  using Reconstruct.init_hip_errors [of fixture_ext "''027321''" "[[fixture_row]]"
      "[[1, 0, 0, 1, 0, 0, 1], [1]]"]
    Reconstruct.init_hip_errors [of fixture_ext "''027321''" "[]" fixture_iad]
  by (auto simp: is_matrix_def init_hip_def load_catalog_def)

lemma scalar_epochs_type_error_witness:
  "\<exists>st. init_hip fixture_ext ''027321'' [[fixture_row]] fixture_one_row = Inr st \<and>
        length fixture_one_row = 1 \<and> length batch_fit = 5 \<and>
        compute_lnprob fixture_orbit st batch_fit False = Inl TypeError"
proof -
  obtain st where st: "init_hip fixture_ext ''027321'' [[fixture_row]] fixture_one_row = Inr st"
    using fixture_one_row_init by blast
  have "length fixture_one_row = 1" "length batch_fit = 5"
    by (simp_all add: fixture_one_row_def batch_fit_def)
  then show ?thesis
    using scalar_epochs_type_error [OF st, of batch_fit fixture_orbit False] st by auto
qed

lemma init_hip_single_column_witness:
  "\<exists>st. init_hip fixture_ext ''027321'' [[fixture_row]] [[0], [1], [0], [1], [0], [0], [1]] = Inr st \<and>
        epoch_ndim st = 0 \<and> epochs st = [1992.25] \<and> cos_phi st = [1] \<and> sin_phi st = [0] \<and>
        R st = [0] \<and> eps st = [1]"
  using Reconstruct.init_hip_single_column
      [of "[[fixture_row]]" fixture_row "[]" "[]" "[[0], [1], [0], [1], [0], [0], [1]]" fixture_ext
        "''027321''"]
  by (simp add: is_matrix_def)

lemma fixture_keys_argsort: "argsort_stable fixture_keys = [0..<1001]"
proof -
  have "map (\<lambda>i. fixture_keys ! i) [0..<length fixture_keys] = fixture_keys"
    by (rule map_nth)
  moreover have "sorted fixture_keys"
    by (simp add: fixture_keys_def sorted_iff_nth_mono)
  ultimately show ?thesis
    by (simp add: argsort_stable_def sort_key_id_if_sorted) (simp add: fixture_keys_def)
qed

lemma best_indices_top_witness:
  "is_argsort fixture_keys (argsort_stable fixture_keys) \<and>
   1000 \<in> set (best_indices argsort_stable fixture_keys) \<and> 0 < length fixture_keys \<and>
   0 \<notin> set (best_indices argsort_stable fixture_keys) \<and>
   fixture_keys ! 0 \<le> fixture_keys ! 1000 \<and> length (best_indices argsort_stable fixture_keys) = 1000"
proof -
  have sel: "best_indices argsort_stable fixture_keys = [1..<1001]"
    by (simp add: best_indices_def take_last_def fixture_keys_argsort)
  have "1000 \<in> set (best_indices argsort_stable fixture_keys)"
    "0 \<notin> set (best_indices argsort_stable fixture_keys)"
    unfolding sel by simp_all
  moreover have len: "length fixture_keys = 1001" by (simp add: fixture_keys_def)
  ultimately show ?thesis
    using Driver.best_indices_top [of fixture_keys argsort_stable 1000 0]
      argsort_stable_is_argsort [of fixture_keys]
    by simp
qed

lemma driver_reaches_plots_witness:
  "fst (new_hip_logprob fixture_services fixture_ext (fixture_world 100000) ''027321'') = Inr fixture_state \<and>
   (\<exists>best panels.
      driver_run fixture_orbit fixture_services fixture_ext fixture_libs (fixture_world 100000)
        fixture_normal () argsort_stable =
          (Inr (best, ''planetpi_test.png'', panels), (fixture_world 100000)\<lparr>vizier_row_limit := -1\<rparr>) \<and>
      length best = 1000 \<and> length panels = 5)"
proof -
  have gen: "\<forall>mu sd k g'. length (fst (fixture_normal mu sd k g')) = k"
    by (simp add: fixture_normal_def)
  have chains: "files (fixture_world 100000) chains_path = Some (replicate 100000 ''0'')"
    by (simp add: fixture_world_def)
  have rows: "100000 \<le> length (parse_csv fixture_libs (replicate 100000 ''0''))"
    by (simp add: fixture_libs_def)
  have srt: "\<forall>keys. is_argsort keys (argsort_stable keys)"
    by (simp add: argsort_stable_is_argsort)
  show ?thesis
    using Driver.driver_reaches_plots [OF fixture_world_init fixture_ndim(1) gen chains rows
        fixture_libs_contracts srt, of fixture_orbit "()"] fixture_world_init
    by auto
qed

lemma driver_scores_witness:
  "hip_wf fixture_state \<and> epoch_ndim fixture_state = 1 \<and> draws_len fixture_draws 1 \<and>
   posterior_len fixture_post 1 \<and>
   compute_lnprob fixture_orbit fixture_state (driver_samples fixture_draws fixture_post) False =
     Inr (Some [cand_lnprob fixture_orbit fixture_state (posterior_candidate fixture_draws fixture_post 0)
                  False])"
proof -
  have d: "draws_len fixture_draws 1" by (simp add: draws_len_def fixture_draws_def)
  have p: "posterior_len fixture_post 1" by (simp add: posterior_len_def fixture_post_def)
  show ?thesis
    using Driver.driver_scores [OF fixture_wf(1) fixture_ndim(1) d p, of fixture_orbit] fixture_wf
      fixture_ndim d p
    by simp
qed

lemma compute_lnprob_select_columns_witness:
  "hip_wf fixture_state \<and> epoch_ndim fixture_state = 1 \<and> is_matrix (hcat batch_fit batch_pm) 2 \<and>
   length (hcat batch_fit batch_pm) = 5 \<and> set [1, 0, 1] \<subseteq> {..<2::nat} \<and>
   (\<exists>v. compute_lnprob fixture_orbit fixture_state (hcat batch_fit batch_pm) False = Inr (Some v) \<and>
        compute_lnprob fixture_orbit fixture_state (select_columns (hcat batch_fit batch_pm) [1, 0, 1]) False =
          Inr (Some [v ! 1, v ! 0, v ! 1]))"
proof -
  have m: "is_matrix (hcat batch_fit batch_pm) 2" "length (hcat batch_fit batch_pm) = 5"
    by (simp_all add: hcat_def batch_fit_def batch_pm_def is_matrix_def)
  show ?thesis
    using Likelihood.compute_lnprob_select_columns
        [OF fixture_wf(1) fixture_ndim(1) m(1) disjI1 [OF m(2)], of "[1, 0, 1]" fixture_orbit False]
      fixture_wf fixture_ndim m
    by auto
qed

lemma new_hip_logprob_missing_file_witness:
  "files fixture_no_files (iad_file_name ''027321'') = None \<and>
   fst (new_hip_logprob fixture_services fixture_ext fixture_no_files ''027321'') = Inl FileNotFoundError"
proof -
  have "files fixture_no_files (iad_file_name ''027321'') = None"
    by (simp add: fixture_no_files_def)
  then show ?thesis
    using DataSources.new_hip_logprob_missing_file [of fixture_no_files "''027321''" fixture_services fixture_ext]
    by (simp add: fixture_services_def)
qed

lemma new_hip_logprob_file_roundtrip_witness:
  "files fixture_files (iad_file_name ''027321'') =
     Some (''HIP 027321 IAD'' # map (show_row fixture_show) fixture_iad) \<and>
   fixture_parse (fixture_show 2) = Some 2 \<and> token_ok (fixture_show 2) \<and>
   fst (new_hip_logprob fixture_services fixture_ext fixture_files ''027321'') = Inr fixture_state"
proof -
  have "fixture_parse (fixture_show 2) = Some 2 \<and> token_ok (fixture_show 2)"
    by (simp add: fixture_parse_def fixture_show_def token_ok_def is_ws_def)
  then show ?thesis
    using DataSources.new_hip_logprob_file_roundtrip [OF fixture_file_facts, of fixture_ext]
      fixture_file_facts(1) fixture_init
    by (simp add: fixture_services_def)
qed

lemma loadtxt_rows_bad_token_witness:
  "''HIP 027321'' \<in> set (drop 1 [''header'', ''HIP 027321'', ''1 1 0 1 0 0 1'']) \<and>
   ''HIP'' \<in> set (split_ws (strip_comment ''HIP 027321'')) \<and> fixture_parse ''HIP'' = None \<and>
   loadtxt_rows fixture_parse [''header'', ''HIP 027321'', ''1 1 0 1 0 0 1''] = Inl ValueError"
proof -
  have l: "''HIP 027321'' \<in> set (drop 1 [''header'', ''HIP 027321'', ''1 1 0 1 0 0 1''])" by simp
  have t: "''HIP'' \<in> set (split_ws (strip_comment ''HIP 027321''))"
    by (simp add: split_ws_def strip_comment_def is_ws_def)
  have n: "fixture_parse ''HIP'' = None" by (simp add: fixture_parse_def)
  show ?thesis
    using DataSources.loadtxt_rows_bad_token
        [of "''HIP 027321''" "[''header'', ''HIP 027321'', ''1 1 0 1 0 0 1'']" "''HIP''" fixture_parse,
         OF l t n] l t n
    by simp
qed

lemma best_orbits_positive_parallax_witness:
  "\<exists>lp. compute_lnprob fixture_orbit fixture_state
          (driver_samples fixture_draws2000 fixture_post2000) False = Inr (Some lp) \<and>
        length (best_indices argsort_stable lp) = 1000 \<and>
        set (best_indices argsort_stable lp) \<subseteq> {j. 0 < df_plx fixture_post2000 ! j}"
proof -
  have pl: "posterior_len fixture_post2000 2000"
    by (simp add: posterior_len_def fixture_post2000_def fixture_plx2000_def)
  have dl: "draws_len fixture_draws2000 2000"
    by (simp add: draws_len_def fixture_draws2000_def)
  obtain lp where lp: "compute_lnprob fixture_orbit fixture_state
      (driver_samples fixture_draws2000 fixture_post2000) False = Inr (Some lp)" "length lp = 2000"
    using driver_lnprob_nth [OF fixture_wf(1) fixture_ndim(1) dl pl zero_less_numeral] by blast
  have "{j. j < 2000 \<and> 0 < df_plx fixture_post2000 ! j} = {1000..<2000}"
    by (auto simp: fixture_post2000_def fixture_plx2000_def nth_append split: if_splits)
  then have card: "1000 \<le> card {j. j < (2000::nat) \<and> 0 < df_plx fixture_post2000 ! j}" by simp
  have "\<forall>i \<in> set (best_indices argsort_stable lp). 0 < df_plx fixture_post2000 ! i"
    using Driver.best_orbits_positive_parallax [where argsort = argsort_stable, OF fixture_wf(1) fixture_ndim(1) dl pl lp(1) card
        argsort_stable_is_argsort [of lp]] .
  then show ?thesis
    using lp is_argsort_perm(1) [OF argsort_stable_is_argsort [of lp]] by (auto simp: best_indices_def)
qed

lemma driver_posterior_errors_witness:
  "driver_run fixture_orbit fixture_services fixture_ext fixture_libs fixture_files fixture_normal ()
     argsort_stable = (Inl FileNotFoundError, fixture_files\<lparr>vizier_row_limit := -1\<rparr>) \<and>
   driver_run fixture_orbit fixture_services fixture_ext fixture_libs (fixture_world 3) fixture_normal ()
     argsort_stable = (Inl ValueError, (fixture_world 3)\<lparr>vizier_row_limit := -1\<rparr>)"
proof -
  have "iad_file_name ''027321'' \<noteq> chains_path" by (simp add: iad_file_name_def chains_path_def)
  then have none: "files fixture_files chains_path = None"
    by (simp add: fixture_files_def)
  have obj: "fst (new_hip_logprob fixture_services fixture_ext fixture_files ''027321'') = Inr fixture_state"
    by (simp add: fixture_files_init)
  have three: "files (fixture_world 3) chains_path = Some (replicate 3 ''0'') \<and>
      length (parse_csv fixture_libs (replicate 3 ''0'')) < 100000"
    by (simp add: fixture_world_def fixture_libs_def)
  show ?thesis
    using Driver.driver_posterior_errors [OF fixture_world_init [of 3],
        where lines = "replicate 3 ''0''" and calc = fixture_orbit and libs = fixture_libs
        and normal = fixture_normal and g = "()" and argsort = argsort_stable]
      Driver.driver_posterior_errors [OF obj,
        where calc = fixture_orbit and libs = fixture_libs
        and normal = fixture_normal and g = "()" and argsort = argsort_stable]
      none three
    by auto
qed

lemma epoch_dist_orbit_bound_witness:
  "astro_len (astro_of batch_orbit) 1 \<and>
   planets_len (OnePlanet \<lparr>sma = [1], ecc = [0], inc = [0], aop = [0], pan = [0], tau = [0],
     mtot = [2], m1 = [1]\<rparr>) 1 \<and>
   fixture_orbit (epochs_mjd fixture_state ! 0) 1 0 0 0 0 0 1 2 = (1, 0, 0) \<and>
   \<bar>epoch_dist fixture_orbit fixture_state (astro_of batch_orbit)
       (OnePlanet \<lparr>sma = [1], ecc = [0], inc = [0], aop = [0], pan = [0], tau = [0],
         mtot = [2], m1 = [1]\<rparr>) 0 ! 0 -
     epoch_dist fixture_orbit fixture_state (astro_of batch_orbit) NoPlanet 0 ! 0\<bar> \<le>
   \<bar>1 / 2\<bar> * (sqrt (1\<^sup>2 + 0\<^sup>2) * sqrt ((cos_phi fixture_state ! 0)\<^sup>2 + (sin_phi fixture_state ! 0)\<^sup>2))"
proof -
  let ?orb = "\<lparr>sma = [1], ecc = [0], inc = [0], aop = [0], pan = [0], tau = [0],
     mtot = [2], m1 = [1::real]\<rparr>"
  have a: "astro_len (astro_of batch_orbit) 1"
    by (simp add: astro_len_def astro_of_def batch_orbit_def)
  have o: "planets_len (OnePlanet ?orb) 1" by (simp add: planets_len_def)
  have c: "fixture_orbit (epochs_mjd fixture_state ! 0) (sma ?orb ! 0) (ecc ?orb ! 0) (inc ?orb ! 0)
      (aop ?orb ! 0) (pan ?orb ! 0) (tau ?orb ! 0) (plx (astro_of batch_orbit) ! 0) (mtot ?orb ! 0) = (1, 0, 0)"
    by (simp add: fixture_orbit_def astro_of_def batch_orbit_def)
  show ?thesis
    using Likelihood.epoch_dist_orbit_bound [where calc = fixture_orbit and st = fixture_state and i = 0,
        OF a o zero_less_one c] a o c
    by (simp add: fixture_orbit_def astro_of_def batch_orbit_def)
qed


lemma epoch_dist_linear_witness:
  "astro_len (astro_of batch_pm) 1 \<and> (0::nat) < 1 \<and>
   epoch_dist fixture_orbit fixture_state (astro_of batch_pm) NoPlanet 0 ! 0 =
     \<bar>scan_obs fixture_state 0 - sum_list (map2 (*) (design_row fixture_state 0)
        [pm_ra (astro_of batch_pm) ! 0, pm_dec (astro_of batch_pm) ! 0, alpha_H0 (astro_of batch_pm) ! 0,
         delta_H0 (astro_of batch_pm) ! 0, plx (astro_of batch_pm) ! 0])\<bar>"
proof -
  have a: "astro_len (astro_of batch_pm) 1" by (simp add: astro_len_def astro_of_def batch_pm_def)
  show ?thesis
    using Likelihood.epoch_dist_linear [OF a, where j = 0 and calc = fixture_orbit and st = fixture_state
        and i = 0] a by simp
qed


end
